theory Spec2Isabelle
  imports Complex_Main
begin


text \<open>
  The speech module of the screen reader (\<open>source/speech/speech.py\<close>): a shallow
  embedding of the functions that build speech sequences, and the properties of these
  functions. The definitions come first, the theorems after them.
\<close>

section \<open>Python values used by the speech module\<close>

text \<open>
  A Python \<open>str\<close> is a sequence of Unicode code points; \<open>len\<close> counts code points.
  It is modelled as a list of code points. String literals of the source are written
  with \<open>lit\<close>. The translation function \<open>_\<close> (gettext) is modelled as the identity,
  so every message is its untranslated message id.
\<close>

type_synonym pystr = "nat list"

definition lit :: "string \<Rightarrow> pystr" where
  "lit s = map of_char s"

datatype error =
  TypeError | ValueError | IndexError | KeyError | AttributeError | LookupError
  | NotImplementedError | AssertionError

text \<open>Python's \<open>str(n)\<close> for integers: decimal digits, with a minus sign when negative.\<close>

fun decimal :: "nat \<Rightarrow> pystr" where
  "decimal n = (if n < 10 then [48 + n] else decimal (n div 10) @ [48 + n mod 10])"

definition str_int :: "int \<Rightarrow> pystr" where
  "str_int i = (if i < 0 then 45 # decimal (nat (- i)) else decimal (nat i))"

text \<open>
  \<open>str.isspace\<close>, \<open>str.rstrip()\<close> and the regular expression class \<open>\s\<close> on \<open>str\<close>
  patterns all use the same set of Unicode whitespace code points.
\<close>

definition isspace_char :: "nat \<Rightarrow> bool" where
  "isspace_char c = (c \<in> {9, 10, 11, 12, 13, 28, 29, 30, 31, 32, 133, 160, 5760,
     8192, 8193, 8194, 8195, 8196, 8197, 8198, 8199, 8200, 8201, 8202,
     8232, 8233, 8239, 8287, 12288})"

definition isspace :: "pystr \<Rightarrow> bool" where
  "isspace s = (s \<noteq> [] \<and> list_all isspace_char s)"

definition rstrip :: "pystr \<Rightarrow> pystr" where
  "rstrip s = rev (dropWhile isspace_char (rev s))"

definition strip :: "pystr \<Rightarrow> pystr" where
  "strip s = dropWhile isspace_char (rstrip s)"

text \<open>
  The operator \<open>%\<close> applied to a format string and one argument that is not a tuple.
  The conversions \<open>%s\<close> and \<open>%%\<close> are covered, and \<open>%d\<close> for an integer argument
  (the only ones the module's messages use). A format string with no conversion or with
  more than one raises \<open>TypeError\<close>, a \<open>%\<close> at the end raises \<open>ValueError\<close>.
\<close>

datatype pyarg = AStr pystr | AInt int

fun render :: "pyarg \<Rightarrow> nat \<Rightarrow> error + pystr" where
  "render (AStr s) c = (if c = 115 then Inr s else Inl TypeError)"
| "render (AInt i) c = (if c = 115 \<or> c = 100 then Inr (str_int i) else Inl TypeError)"

fun formatScan :: "pystr \<Rightarrow> pyarg \<Rightarrow> bool \<Rightarrow> error + pystr" where
  "formatScan [] arg used = (if used then Inr [] else Inl TypeError)"
| "formatScan [c] arg used =
     (if c = 37 then Inl ValueError
      else (case formatScan [] arg used of Inl e \<Rightarrow> Inl e | Inr r \<Rightarrow> Inr (c # r)))"
| "formatScan (c # d # ds) arg used =
     (if c \<noteq> 37 then
        (case formatScan (d # ds) arg used of Inl e \<Rightarrow> Inl e | Inr r \<Rightarrow> Inr (c # r))
      else if d = 37 then
        (case formatScan ds arg used of Inl e \<Rightarrow> Inl e | Inr r \<Rightarrow> Inr (37 # r))
      else if used then Inl TypeError
      else (case render arg d of
              Inl e \<Rightarrow> Inl e
            | Inr a \<Rightarrow> (case formatScan ds arg True of Inl e \<Rightarrow> Inl e | Inr r \<Rightarrow> Inr (a @ r))))"

definition percent :: "pystr \<Rightarrow> pyarg \<Rightarrow> error + pystr" where
  "percent message arg = formatScan message arg False"

text \<open>\<open>ngettext\<close> without a translation catalogue: the singular form for 1, else the plural.\<close>

definition ngettext :: "pystr \<Rightarrow> pystr \<Rightarrow> int \<Rightarrow> pystr" where
  "ngettext singular plural n = (if n = 1 then singular else plural)"

section \<open>Speech sequences\<close>

text \<open>
  A speech sequence item is a \<open>str\<close> or one of the speech commands the module imports.
  The beep frequency is a Python float; it is modelled as the real number the
  expression denotes (floating-point rounding is not modelled).
\<close>

datatype SequenceItemT =
    Str pystr
  | BreakCommand int
  | PitchCommand int
  | LangChangeCommand "pystr option"
  | BeepCommand real int
  | EndUtteranceCommand
  | SuppressUnicodeNormalizationCommand bool
  | CharacterModeCommand bool
  | OtherCommand nat

type_synonym SpeechSequence = "SequenceItemT list"

section \<open>Spelling: the character-mode pass\<close>

text \<open>
  \<open>_getSpellingSpeechAddCharMode\<close>: the loop over the sequence, with the local
  variable \<open>charMode\<close> as an argument.
\<close>

fun addCharMode_loop :: "bool \<Rightarrow> SpeechSequence \<Rightarrow> SpeechSequence" where
  "addCharMode_loop charMode [] = []"
| "addCharMode_loop charMode (Str s # seq) =
     (if length s = 1 then
        (if \<not> charMode then [CharacterModeCommand True] else []) @
          Str s # addCharMode_loop True seq
      else if charMode then
        CharacterModeCommand False # Str s # addCharMode_loop False seq
      else Str s # addCharMode_loop charMode seq)"
| "addCharMode_loop charMode (item # seq) = item # addCharMode_loop charMode seq"

definition getSpellingSpeechAddCharMode :: "SpeechSequence \<Rightarrow> SpeechSequence" where
  "getSpellingSpeechAddCharMode seq = addCharMode_loop False seq"

section \<open>Messages\<close>

definition BLANK_CHUNK_CHARS :: "nat set" where
  "BLANK_CHUNK_CHARS = {32, 10, 13, 0, 160}"

definition isBlank :: "pystr \<Rightarrow> bool" where
  "isBlank text = (text = [] \<or> set text \<subseteq> BLANK_CHUNK_CHARS)"

definition getSpeakMessageSpeech :: "pystr option \<Rightarrow> SpeechSequence" where
  "getSpeakMessageSpeech text =
     (case text of
        None \<Rightarrow> []
      | Some t \<Rightarrow> if isBlank t then [Str (lit ''blank'')] else [Str t])"

definition MAX_LENGTH_FOR_SELECTION_REPORTING :: nat where
  "MAX_LENGTH_FOR_SELECTION_REPORTING = 512"

definition getSelectionMessageSpeech :: "pystr \<Rightarrow> pystr \<Rightarrow> error + SpeechSequence" where
  "getSelectionMessageSpeech message text =
     (if length text < MAX_LENGTH_FOR_SELECTION_REPORTING then
        (case percent message (AStr text) of
           Inl e \<Rightarrow> Inl e
         | Inr m \<Rightarrow> Inr (getSpeakMessageSpeech (Some m)))
      else
        (let textLength = int (length text) in
         case percent (ngettext (lit ''%d character'') (lit ''%d characters'') textLength)
                (AInt textLength) of
           Inl e \<Rightarrow> Inl e
         | Inr numCharactersText \<Rightarrow>
             (case percent message (AStr numCharactersText) of
                Inl e \<Rightarrow> Inl e
              | Inr m \<Rightarrow> Inr (getSpeakMessageSpeech (Some m)))))"

section \<open>Indentation\<close>

datatype ReportLineIndentation = OFF | SPEECH | TONES | SPEECH_AND_TONES

datatype SpeechMode = off | beeps | talk | onDemand

definition IDT_BASE_FREQUENCY :: real where
  "IDT_BASE_FREQUENCY = 220"

definition IDT_TONE_DURATION :: int where
  "IDT_TONE_DURATION = 80"

definition IDT_MAX_SPACES :: nat where
  "IDT_MAX_SPACES = 72"

text \<open>
  \<open>RE_INDENTATION_CONVERT.finditer\<close>: the successive matches of
  \<open>(?P<char>\s)(?P=char)*\<close>, that is the maximal runs of one repeated whitespace
  character, from left to right; a character that is not whitespace is skipped.
\<close>

function indentationRuns :: "pystr \<Rightarrow> pystr list" where
  "indentationRuns [] = []"
| "indentationRuns (c # cs) =
     (if isspace_char c
      then (c # takeWhile (\<lambda>d. d = c) cs) # indentationRuns (dropWhile (\<lambda>d. d = c) cs)
      else indentationRuns cs)"
  by pat_completeness auto
termination
  by (relation "measure length") (auto simp: length_dropWhile_le less_Suc_eq_le)

text \<open>
  The body of the loop over the matches. \<open>processSpeechSymbol\<close> belongs to the module
  \<open>characterProcessing\<close> and is a parameter, already applied to the locale.
\<close>

definition indentationRunText :: "(pystr \<Rightarrow> pystr) \<Rightarrow> pystr \<Rightarrow> pystr" where
  "indentationRunText symbolOf raw =
     (let symbol = symbolOf [hd raw]; count = length raw in
      if symbol = [hd raw] then raw
      else if count = 1 then symbol
      else str_int (int count) @ lit '' '' @ symbol)"

definition indentationRunTones :: "pystr \<Rightarrow> nat" where
  "indentationRunTones raw = (if hd raw = 9 then length raw * 4 else length raw)"

definition getIndentationSpeech ::
  "(pystr \<Rightarrow> pystr \<Rightarrow> pystr) \<Rightarrow> pystr \<Rightarrow> SpeechMode \<Rightarrow> pystr \<Rightarrow> ReportLineIndentation
     \<Rightarrow> SpeechSequence" where
  "getIndentationSpeech processSpeechSymbol getLanguage speechMode indentation reportLineIndentation =
     (let speechIndentConfig = (reportLineIndentation \<in> {SPEECH, SPEECH_AND_TONES});
          toneIndentConfig = (reportLineIndentation \<in> {TONES, SPEECH_AND_TONES} \<and> speechMode = talk)
      in
      if indentation = [] then
        (if toneIndentConfig then [BeepCommand IDT_BASE_FREQUENCY IDT_TONE_DURATION] else []) @
        (if speechIndentConfig then [Str (lit ''no indent'')] else [])
      else
        (let indentation' = map (\<lambda>c. if c = 160 then 32 else c) indentation;
             locale = getLanguage;
             runs = indentationRuns indentation';
             res = map (\<lambda>raw. Str (indentationRunText (processSpeechSymbol locale) raw)) runs;
             quarterTones = sum_list (map indentationRunTones runs);
             speak = (speechIndentConfig \<or> (toneIndentConfig \<and> \<not> quarterTones \<le> IDT_MAX_SPACES))
         in
         (if toneIndentConfig \<and> quarterTones \<le> IDT_MAX_SPACES
          then [BeepCommand (IDT_BASE_FREQUENCY * 2 powr (real quarterTones / 24)) IDT_TONE_DURATION]
          else []) @
         (if speak then res else [])))"

section \<open>Spelling\<close>

text \<open>
  What the spelling functions take from outside this module: the synthesizer and its
  configuration, the speech configuration, character processing, Unicode normalization
  and the case tables behind \<open>str.isupper\<close> and \<open>str.lower\<close>.
\<close>

datatype synthLanguage = NoSynth | LanguageNotImplemented | Language "pystr option"

record spellEnv =
  synth_language :: synthLanguage
  trustVoiceLanguage :: bool
  normalizeLanguage :: "pystr \<Rightarrow> pystr option"
  getLanguage :: pystr
  autoDialectSwitching :: bool
  shouldMakeLangChangeCommand :: bool
  unicodeNormalize :: "pystr \<Rightarrow> pystr"
  splitAtCharacterBoundaries :: "pystr \<Rightarrow> pystr list"
  getCharacterDescription :: "pystr \<Rightarrow> pystr \<Rightarrow> pystr list option"
  processSpeechSymbol :: "pystr \<Rightarrow> pystr \<Rightarrow> pystr"
  isupper :: "pystr \<Rightarrow> bool"
  lower :: "pystr \<Rightarrow> pystr"
  synthSupportsPitchCommand :: bool
  conf_capPitchChange :: int
  conf_sayCapForCapitals :: bool
  conf_beepForCapitals :: bool
  conf_useSpellingFunctionality :: bool
  conf_unicodeNormalization :: bool
  conf_reportNormalizedForCharacterNavigation :: bool

definition getCurrentLanguage :: "spellEnv \<Rightarrow> pystr" where
  "getCurrentLanguage env =
     (let language =
        (case synth_language env of
           NoSynth \<Rightarrow> None
         | LanguageNotImplemented \<Rightarrow> None
         | Language l \<Rightarrow> if trustVoiceLanguage env then l else None);
          language' =
        (case language of
           None \<Rightarrow> None
         | Some l \<Rightarrow> if l = [] then Some l else normalizeLanguage env l)
      in case language' of
           None \<Rightarrow> getLanguage env
         | Some l \<Rightarrow> if l = [] then getLanguage env else l)"

definition LANGS_WITH_CONJUNCT_CHARS :: "pystr set" where
  "LANGS_WITH_CONJUNCT_CHARS = lit ` {''hi'', ''as'', ''bn'', ''gu'', ''kn'', ''kok'', ''ml'',
     ''mni'', ''mr'', ''pa'', ''te'', ''ur'', ''ta''}"

text \<open>\<open>s.split("_")[0]\<close>: the part before the first underscore.\<close>

definition langRoot :: "pystr \<Rightarrow> pystr" where
  "langRoot s = takeWhile (\<lambda>c. c \<noteq> 95) s"

text \<open>\<open>sep.join(parts)\<close>.\<close>

fun join :: "pystr \<Rightarrow> pystr list \<Rightarrow> pystr" where
  "join sep [] = []"
| "join sep [p] = p"
| "join sep (p # q # ps) = p @ sep @ join sep (q # ps)"

text \<open>
  \<open>_getSpellingCharAddCapNotification\<close>. With the untranslated messages,
  \<open>"cap %s".split("%s")\<close> is \<open>("cap ", "")\<close> and \<open>"%s normalized".split("%s")\<close> is
  \<open>("", " normalized")\<close>.
\<close>

definition getSpellingCharAddCapNotification ::
  "pystr \<Rightarrow> bool \<Rightarrow> int \<Rightarrow> bool \<Rightarrow> bool \<Rightarrow> SpeechSequence" where
  "getSpellingCharAddCapNotification speakCharAs sayCapForCapitals capPitchChange beepForCapitals
       reportNormalized =
     (let capMsgBefore = (if sayCapForCapitals then lit ''cap '' else []);
          capMsgAfter = ([]::pystr);
          normalizedMsgBefore = ([]::pystr);
          normalizedMsgAfter = (if reportNormalized then lit '' normalized'' else [])
      in
      (if capPitchChange \<noteq> 0 then [PitchCommand capPitchChange] else []) @
      (if normalizedMsgBefore \<noteq> [] then [Str normalizedMsgBefore] else []) @
      (if beepForCapitals then [BeepCommand 2000 50] else []) @
      (if capMsgBefore \<noteq> [] then [Str capMsgBefore] else []) @
      [Str speakCharAs] @
      (if capMsgAfter \<noteq> [] then [Str capMsgAfter] else []) @
      (if normalizedMsgAfter \<noteq> [] then [Str normalizedMsgAfter] else []) @
      (if capPitchChange \<noteq> 0 then [PitchCommand 0] else []))"

text \<open>\<open>getCharDescListFromText\<close>: the while loop, with \<open>text\<close> and \<open>i\<close> as arguments.\<close>

definition truthyDesc :: "pystr list option \<Rightarrow> bool" where
  "truthyDesc d = (case d of None \<Rightarrow> False | Some l \<Rightarrow> l \<noteq> [])"

function charDescLoop ::
  "spellEnv \<Rightarrow> pystr \<Rightarrow> pystr \<Rightarrow> nat \<Rightarrow> (pystr \<times> pystr list option) list" where
  "charDescLoop env locale text i =
     (if i = 0 then []
      else
        (let subText = take i text;
             charDesc = getCharacterDescription env locale subText
         in
         if truthyDesc charDesc \<or> i = 1 then
           (subText,
            if \<not> truthyDesc charDesc
            then getCharacterDescription env locale (lower env subText)
            else charDesc)
           # charDescLoop env locale (drop i text) (length (drop i text))
         else charDescLoop env locale text (i - 1)))"
  by pat_completeness auto
termination
  apply (relation "measures [\<lambda>(env, locale, t, i). length t, \<lambda>(env, locale, t, i). i]")
  subgoal by simp
  subgoal for env loc t i by (cases t) auto
  subgoal by simp
  done

definition getCharDescListFromText ::
  "spellEnv \<Rightarrow> pystr \<Rightarrow> pystr \<Rightarrow> (pystr \<times> pystr list option) list" where
  "getCharDescListFromText env text locale = charDescLoop env locale text (length text)"

text \<open>
  \<open>_getSpellingSpeechWithoutCharMode\<close>. The parameters of one call that do not change
  in the loop are collected in a record.
\<close>

record spellArgs =
  useCharacterDescriptions :: bool
  sayCapForCapitals :: bool
  capPitchChange :: int
  beepForCapitals :: bool
  fallbackToCharIfNoDescription :: bool
  unicodeNormalization :: bool
  reportNormalizedForCharacterNavigation :: bool

definition IDEOGRAPHIC_COMMA :: pystr where
  "IDEOGRAPHIC_COMMA = [12289]"

text \<open>
  The loop \<open>for item in charDescList\<close>. An item is the pair of the unit and of its
  description; where the locale has no conjuncts the description is looked up in the loop.
  The \<open>return None\<close> in the loop ends the generator: nothing more is yielded.
\<close>

fun spellItems ::
  "spellEnv \<Rightarrow> spellArgs \<Rightarrow> pystr \<Rightarrow> bool \<Rightarrow> nat \<Rightarrow> bool
     \<Rightarrow> (pystr \<times> pystr list option) list \<Rightarrow> SpeechSequence" where
  "spellItems env args locale localeHasConjuncts textLength textIsNormalized [] = []"
| "spellItems env args locale localeHasConjuncts textLength textIsNormalized (item # items) =
     (let speakCharAs = fst item;
          charDesc =
            (if localeHasConjuncts then snd item
             else if useCharacterDescriptions args
             then getCharacterDescription env locale (lower env speakCharAs)
             else None);
          uppercase = isupper env speakCharAs
      in
      if useCharacterDescriptions args \<and> \<not> truthyDesc charDesc
           \<and> \<not> fallbackToCharIfNoDescription args
      then []
      else
        (let (speakCharAs', itemIsNormalized) =
           (if useCharacterDescriptions args \<and> truthyDesc charDesc then
              (if textLength > 1 then hd (the charDesc) else join IDEOGRAPHIC_COMMA (the charDesc),
               textIsNormalized)
            else
              (let symbol = processSpeechSymbol env locale speakCharAs in
               if symbol \<noteq> speakCharAs then (symbol, textIsNormalized)
               else if \<not> textIsNormalized \<and> unicodeNormalization args then
                 (let normalized = unicodeNormalize env speakCharAs in
                  if normalized \<noteq> speakCharAs then
                    (join (lit '' '')
                       (map (\<lambda>normChar. processSpeechSymbol env locale [normChar]) normalized),
                     True)
                  else (speakCharAs, textIsNormalized))
               else (speakCharAs, textIsNormalized)))
         in
         (if shouldMakeLangChangeCommand env then [LangChangeCommand (Some locale)] else []) @
         getSpellingCharAddCapNotification speakCharAs'
           (uppercase \<and> sayCapForCapitals args)
           (if uppercase then capPitchChange args else 0)
           (uppercase \<and> beepForCapitals args)
           (itemIsNormalized \<and> reportNormalizedForCharacterNavigation args) @
         [EndUtteranceCommand] @
         spellItems env args locale localeHasConjuncts textLength textIsNormalized items))"

text \<open>The part of the function after the test for the empty string and the trimming.\<close>

definition spellText :: "spellEnv \<Rightarrow> spellArgs \<Rightarrow> pystr \<Rightarrow> pystr \<Rightarrow> SpeechSequence" where
  "spellText env args locale text =
     (let textLength = length text;
          normalized = unicodeNormalize env text;
          composed = (unicodeNormalization args \<and> textLength > 1 \<and> length normalized = 1);
          text' = (if composed then normalized else text);
          textIsNormalized = composed;
          localeHasConjuncts = (langRoot locale \<in> LANGS_WITH_CONJUNCT_CHARS);
          charDescList =
            (if localeHasConjuncts then getCharDescListFromText env text' locale
             else if \<not> textIsNormalized \<and> unicodeNormalization args
             then map (\<lambda>u. (u, None)) (splitAtCharacterBoundaries env text')
             else map (\<lambda>c. ([c], None)) text')
      in spellItems env args locale localeHasConjuncts textLength textIsNormalized charDescList)"

text \<open>The locale that the function uses: the first statements of the function.\<close>

definition spellingLocale :: "spellEnv \<Rightarrow> pystr option \<Rightarrow> pystr" where
  "spellingLocale env locale =
     (let defaultLanguage = getCurrentLanguage env in
      case locale of
        None \<Rightarrow> defaultLanguage
      | Some l \<Rightarrow>
          if l = [] \<or> (\<not> autoDialectSwitching env \<and> langRoot l = langRoot defaultLanguage)
          then defaultLanguage else l)"

definition getSpellingSpeechWithoutCharMode ::
  "spellEnv \<Rightarrow> spellArgs \<Rightarrow> pystr \<Rightarrow> pystr option \<Rightarrow> SpeechSequence" where
  "getSpellingSpeechWithoutCharMode env args text locale =
     (if text = [] then [Str (lit ''blank'')]
      else spellText env args (spellingLocale env locale)
             (if \<not> isspace text then rstrip text else text))"

definition getSpellingSpeech :: "spellEnv \<Rightarrow> pystr \<Rightarrow> pystr option \<Rightarrow> bool \<Rightarrow> SpeechSequence" where
  "getSpellingSpeech env text locale useCharacterDescriptions' =
     (let capPitchChange' = (if synthSupportsPitchCommand env then conf_capPitchChange env else 0);
          unicodeNormalization' = (\<not> useCharacterDescriptions' \<and> conf_unicodeNormalization env);
          seq = getSpellingSpeechWithoutCharMode env
                  \<lparr>useCharacterDescriptions = useCharacterDescriptions',
                   sayCapForCapitals = conf_sayCapForCapitals env,
                   capPitchChange = capPitchChange',
                   beepForCapitals = conf_beepForCapitals env,
                   fallbackToCharIfNoDescription = True,
                   unicodeNormalization = unicodeNormalization',
                   reportNormalizedForCharacterNavigation =
                     conf_reportNormalizedForCharacterNavigation env\<rparr>
                  text locale;
          seq' = (if conf_useSpellingFunctionality env then getSpellingSpeechAddCharMode seq else seq)
      in [SuppressUnicodeNormalizationCommand True] @ seq' @
         [SuppressUnicodeNormalizationCommand False])"

section \<open>Property values\<close>

text \<open>
  Property values and field attributes are Python dictionaries from names to values.
  The values the modelled code looks at are \<open>None\<close>, strings, integers (booleans
  and enumeration members are integers) and sets of states.
\<close>

datatype pyval = PNone | PStr pystr | PInt int | PSet "nat set"

type_synonym dict = "string \<rightharpoonup> pyval"

text \<open>\<open>d.get(k)\<close>: \<open>None\<close> for a missing key.\<close>

definition pyget :: "dict \<Rightarrow> string \<Rightarrow> pyval" where
  "pyget d k = (case d k of None \<Rightarrow> PNone | Some v \<Rightarrow> v)"

fun truthy :: "pyval \<Rightarrow> bool" where
  "truthy PNone = False"
| "truthy (PStr s) = (s \<noteq> [])"
| "truthy (PInt i) = (i \<noteq> 0)"
| "truthy (PSet S) = (S \<noteq> {})"

text \<open>
  Typed reads: a text property is a string and a table coordinate, span or count is an
  integer; a missing key, \<open>None\<close> or a value of another type reads as absent.
\<close>

definition getText :: "dict \<Rightarrow> string \<Rightarrow> pystr" where
  "getText d k = (case d k of Some (PStr s) \<Rightarrow> s | _ \<Rightarrow> [])"

definition getInt :: "dict \<Rightarrow> string \<Rightarrow> int option" where
  "getInt d k = (case d k of Some (PInt i) \<Rightarrow> Some i | _ \<Rightarrow> None)"

definition truthyNum :: "int option \<Rightarrow> bool" where
  "truthyNum n = (case n of None \<Rightarrow> False | Some i \<Rightarrow> i \<noteq> 0)"

datatype OutputReason =
  QUERY | FOCUS | FOCUSENTERED | MOUSE | CHANGE | MESSAGE | SAYALL | CARET | ONLYCACHE | QUICKNAV

section \<open>Object properties: the description that repeats the name\<close>

text \<open>
  \<open>getObjectPropertiesSpeech\<close>, from the end of the loop that fetches the wanted
  properties of the object into \<open>newPropertyValues\<close> up to the filter for
  \<open>OutputReason.CHANGE\<close>. First the test that deletes a description equal to the name.
\<close>

definition dropDuplicateDescription :: "OutputReason \<Rightarrow> dict \<Rightarrow> dict" where
  "dropDuplicateDescription reason newPropertyValues =
     (if truthy (pyget newPropertyValues ''description'')
         \<and> pyget newPropertyValues ''name'' = pyget newPropertyValues ''description''
         \<and> reason \<noteq> CHANGE
      then newPropertyValues(''description'' := None)
      else newPropertyValues)"

text \<open>The three position properties copied from \<open>obj.positionInfo\<close>.\<close>

definition copyPositionInfo :: "(string \<Rightarrow> bool) \<Rightarrow> dict \<Rightarrow> string \<Rightarrow> dict \<Rightarrow> dict" where
  "copyPositionInfo allowed positionInfo k newPropertyValues =
     (if allowed (''positionInfo_'' @ k) \<and> k \<in> dom positionInfo
      then newPropertyValues(''positionInfo_'' @ k := positionInfo k)
      else newPropertyValues)"

definition addPositionInfo :: "(string \<Rightarrow> bool) \<Rightarrow> dict option \<Rightarrow> dict \<Rightarrow> dict" where
  "addPositionInfo allowed positionInfo newPropertyValues =
     (case positionInfo of
        None \<Rightarrow> newPropertyValues
      | Some p \<Rightarrow>
          if p = Map.empty then newPropertyValues
          else copyPositionInfo allowed p ''similarItemsInGroup''
                 (copyPositionInfo allowed p ''indexInGroup''
                    (copyPositionInfo allowed p ''level'' newPropertyValues)))"

text \<open>
  The filter for \<open>OutputReason.CHANGE\<close>: a value equal to the cached one is deleted;
  changed states are replaced by the states gained, and the states lost are added under
  \<open>negativeStates\<close>. Set difference on a value that is not a set raises \<open>TypeError\<close>.
\<close>

definition changedValues :: "dict \<Rightarrow> dict \<Rightarrow> error + dict" where
  "changedValues oldCachedPropertyValues newPropertyValues =
     (let filtered = (\<lambda>name.
            if name \<in> dom newPropertyValues \<inter> dom oldCachedPropertyValues
               \<and> newPropertyValues name = oldCachedPropertyValues name
            then None else newPropertyValues name)
      in
      if ''states'' \<in> dom newPropertyValues \<inter> dom oldCachedPropertyValues
         \<and> newPropertyValues ''states'' \<noteq> oldCachedPropertyValues ''states''
      then
        (case (newPropertyValues ''states'', oldCachedPropertyValues ''states'') of
           (Some (PSet newStates), Some (PSet oldStates)) \<Rightarrow>
              Inr (filtered(''states'' \<mapsto> PSet (newStates - oldStates),
                            ''negativeStates'' \<mapsto> PSet (oldStates - newStates)))
         | _ \<Rightarrow> Inl TypeError)
      else Inr filtered)"

text \<open>
  The result is the new value of \<open>obj._speakObjectPropertiesCache\<close> and the property
  values that go on to \<open>getPropertiesSpeech\<close> (none for \<open>OutputReason.ONLYCACHE\<close>,
  where the function returns the empty sequence). The entries added after this point
  (\<open>_role\<close>, \<open>_states\<close>, \<open>_tableID\<close>, \<open>placeholder\<close>, \<open>states\<close>) are not modelled.
\<close>

definition getObjectPropertiesSpeech_values ::
  "OutputReason \<Rightarrow> (string \<Rightarrow> bool) \<Rightarrow> dict option \<Rightarrow> dict \<Rightarrow> dict
     \<Rightarrow> dict \<times> (error + dict option)" where
  "getObjectPropertiesSpeech_values reason allowed positionInfo fetched oldCachedPropertyValues =
     (let newPropertyValues = addPositionInfo allowed positionInfo
                                (dropDuplicateDescription reason fetched);
          cachedPropertyValues = oldCachedPropertyValues ++ newPropertyValues
      in
      (cachedPropertyValues,
       if reason = ONLYCACHE then Inr None
       else if reason = CHANGE then
         (case changedValues oldCachedPropertyValues newPropertyValues of
            Inl e \<Rightarrow> Inl e
          | Inr v \<Rightarrow> Inr (Some v))
       else Inr (Some newPropertyValues)))"

text \<open>\<open>getPropertiesSpeech\<close>: what it appends for the description.\<close>

definition descriptionSpeech :: "dict \<Rightarrow> SpeechSequence" where
  "descriptionSpeech propertyValues =
     (let description = getText propertyValues ''description'' in
      if description \<noteq> [] then [Str description] else [])"

section \<open>Table cells in \<open>getPropertiesSpeech\<close>\<close>

text \<open>The values of \<open>_speechState\<close> that \<open>getPropertiesSpeech\<close> keeps between calls.\<close>

record SpeechState =
  oldTreeLevel :: "int option"
  oldTableID :: "int option"
  oldRowNumber :: "int option"
  oldRowSpan :: "int option"
  oldColumnNumber :: "int option"
  oldColumnSpan :: "int option"

definition initialSpeechState :: SpeechState where
  "initialSpeechState =
     \<lparr>oldTreeLevel = None, oldTableID = None, oldRowNumber = None, oldRowSpan = None,
      oldColumnNumber = None, oldColumnSpan = None\<rparr>"

text \<open>\<open>propertyValues.get("includeTableCellCoords", True)\<close>.\<close>

definition includeTableCellCoords :: "dict \<Rightarrow> bool" where
  "includeTableCellCoords pv =
     (case pv ''includeTableCellCoords'' of None \<Rightarrow> True | Some v \<Rightarrow> truthy v)"

text \<open>\<open>propertyValues.get("rowSpan") or 1\<close>.\<close>

definition spanOf :: "dict \<Rightarrow> string \<Rightarrow> int" where
  "spanOf pv k = (case getInt pv k of None \<Rightarrow> 1 | Some n \<Rightarrow> if n = 0 then 1 else n)"

definition sameTable :: "SpeechState \<Rightarrow> dict \<Rightarrow> bool" where
  "sameTable st pv =
     (truthyNum (getInt pv ''_tableID'') \<and> getInt pv ''_tableID'' = oldTableID st)"

text \<open>The conditions of the two branches that report the row and the column.\<close>

definition rowChanged :: "SpeechState \<Rightarrow> dict \<Rightarrow> bool" where
  "rowChanged st pv =
     (truthyNum (getInt pv ''rowNumber'')
      \<and> (\<not> sameTable st pv \<or> getInt pv ''rowNumber'' \<noteq> oldRowNumber st
           \<or> Some (spanOf pv ''rowSpan'') \<noteq> oldRowSpan st))"

definition columnChanged :: "SpeechState \<Rightarrow> dict \<Rightarrow> bool" where
  "columnChanged st pv =
     (truthyNum (getInt pv ''columnNumber'')
      \<and> (\<not> sameTable st pv \<or> getInt pv ''columnNumber'' \<noteq> oldColumnNumber st
           \<or> Some (spanOf pv ''columnSpan'') \<noteq> oldColumnSpan st))"

text \<open>What the two branches append: the header text, the number and the span.\<close>

definition rowSpeech :: "dict \<Rightarrow> SpeechSequence" where
  "rowSpeech pv =
     (let rowNumber = the (getInt pv ''rowNumber'');
          rowSpan = spanOf pv ''rowSpan'';
          columnSpan = spanOf pv ''columnSpan'';
          rowHeaderText = getText pv ''rowHeaderText''
      in
      (if rowHeaderText \<noteq> [] then [Str rowHeaderText] else []) @
      (if includeTableCellCoords pv \<and> getText pv ''cellCoordsText'' = [] then
         Str (lit ''row '' @ str_int rowNumber) #
         (if rowSpan > 1 \<and> columnSpan \<le> 1
          then [Str (lit ''through '' @ str_int (rowNumber + rowSpan - 1))] else [])
       else []))"

definition columnSpeech :: "dict \<Rightarrow> SpeechSequence" where
  "columnSpeech pv =
     (let columnNumber = the (getInt pv ''columnNumber'');
          rowSpan = spanOf pv ''rowSpan'';
          columnSpan = spanOf pv ''columnSpan'';
          columnHeaderText = getText pv ''columnHeaderText''
      in
      (if columnHeaderText \<noteq> [] then [Str columnHeaderText] else []) @
      (if includeTableCellCoords pv \<and> getText pv ''cellCoordsText'' = [] then
         Str (lit ''column '' @ str_int columnNumber) #
         (if columnSpan > 1 \<and> rowSpan \<le> 1
          then [Str (lit ''through '' @ str_int (columnNumber + columnSpan - 1))] else [])
       else []))"

definition rowPhrase :: "SpeechState \<Rightarrow> dict \<Rightarrow> SpeechSequence" where
  "rowPhrase st pv = (if rowChanged st pv then rowSpeech pv else [])"

definition columnPhrase :: "SpeechState \<Rightarrow> dict \<Rightarrow> SpeechSequence" where
  "columnPhrase st pv = (if columnChanged st pv then columnSpeech pv else [])"

text \<open>
  The phrase for a cell that spans rows and columns. \<open>rowNumber + rowSpan - 1\<close> raises
  \<open>TypeError\<close> when the number is \<open>None\<close>.
\<close>

definition rowColSpanSpeech :: "dict \<Rightarrow> error + SpeechSequence" where
  "rowColSpanSpeech pv =
     (if includeTableCellCoords pv \<and> getText pv ''cellCoordsText'' = []
         \<and> spanOf pv ''rowSpan'' > 1 \<and> spanOf pv ''columnSpan'' > 1 then
        (case (getInt pv ''rowNumber'', getInt pv ''columnNumber'') of
           (Some r, Some c) \<Rightarrow>
             Inr [Str (lit ''through row '' @ str_int (r + spanOf pv ''rowSpan'' - 1)
                       @ lit '' column '' @ str_int (c + spanOf pv ''columnSpan'' - 1))]
         | _ \<Rightarrow> Inl TypeError)
      else Inr [])"

definition rowCountText :: "int \<Rightarrow> pystr" where
  "rowCountText count = str_int count @ (if count = 1 then lit '' row'' else lit '' rows'')"

definition columnCountText :: "int \<Rightarrow> pystr" where
  "columnCountText count =
     str_int count @ (if count = 1 then lit '' column'' else lit '' columns'')"

definition rowAndColumnCountText :: "int \<Rightarrow> int \<Rightarrow> pystr option" where
  "rowAndColumnCountText rowCount columnCount =
     (if rowCount \<noteq> 0 \<and> columnCount \<noteq> 0 then
        Some (lit ''with '' @ rowCountText rowCount @ lit '' and '' @ columnCountText columnCount)
      else if columnCount \<noteq> 0 \<and> \<not> rowCount \<noteq> 0 then
        Some (lit ''with '' @ str_int columnCount
              @ (if columnCount = 1 then lit '' column'' else lit '' columns''))
      else if rowCount \<noteq> 0 \<and> \<not> columnCount \<noteq> 0 then
        Some (lit ''with '' @ str_int rowCount
              @ (if rowCount = 1 then lit '' row'' else lit '' rows''))
      else None)"

definition countOf :: "dict \<Rightarrow> string \<Rightarrow> int" where
  "countOf pv k = (case getInt pv k of None \<Rightarrow> 0 | Some n \<Rightarrow> n)"

text \<open>
  The state after the table-cell block: the table identifier is recorded when one is
  given and differs, the row and column numbers and spans when their branch runs.
\<close>

definition tableCellState :: "SpeechState \<Rightarrow> dict \<Rightarrow> SpeechState" where
  "tableCellState st pv =
     (let st1 = (if truthyNum (getInt pv ''_tableID'') \<and> \<not> sameTable st pv
                 then st\<lparr>oldTableID := getInt pv ''_tableID''\<rparr> else st);
          st2 = (if rowChanged st pv
                 then st1\<lparr>oldRowNumber := getInt pv ''rowNumber'',
                          oldRowSpan := Some (spanOf pv ''rowSpan'')\<rparr> else st1)
      in (if columnChanged st pv
          then st2\<lparr>oldColumnNumber := getInt pv ''columnNumber'',
                   oldColumnSpan := Some (spanOf pv ''columnSpan'')\<rparr> else st2))"

text \<open>
  \<open>getPropertiesSpeech\<close> from the cell coordinates to the row and column counts: what
  is appended to \<open>textList\<close>, and \<open>_speechState\<close> afterwards. When the span phrase
  raises, the state already holds the table, row and column of this call.
\<close>

definition getPropertiesSpeech_table ::
  "SpeechState \<Rightarrow> dict \<Rightarrow> (error + SpeechSequence) \<times> SpeechState" where
  "getPropertiesSpeech_table st pv =
     (let cellCoordsText = getText pv ''cellCoordsText'';
          coords = (if includeTableCellCoords pv \<and> cellCoordsText \<noteq> []
                    then [Str cellCoordsText] else []);
          inCell = (cellCoordsText \<noteq> [] \<or> truthyNum (getInt pv ''rowNumber'')
                    \<or> truthyNum (getInt pv ''columnNumber''));
          st' = (if inCell then tableCellState st pv else st);
          cell = (if inCell then
                    (case rowColSpanSpeech pv of
                       Inl e \<Rightarrow> Inl e
                     | Inr spanSeq \<Rightarrow> Inr (rowPhrase st pv @ columnPhrase st pv @ spanSeq))
                  else Inr []);
          rowCount = countOf pv ''rowCount'';
          columnCount = countOf pv ''columnCount''
      in
      case cell of
        Inl e \<Rightarrow> (Inl e, st')
      | Inr cellSeq \<Rightarrow>
          (Inr (coords @ cellSeq @
                (case rowAndColumnCountText rowCount columnCount of
                   None \<Rightarrow> [] | Some t \<Rightarrow> [Str t])),
           if rowCount \<noteq> 0 \<or> columnCount \<noteq> 0 then st'\<lparr>oldTableID := None\<rparr> else st'))"

section \<open>Table information of a format field\<close>

text \<open>
  \<open>getTableInfoSpeech\<close>. The table information is a dictionary with integer values
  under \<open>table-id\<close>, \<open>row-number\<close>, \<open>column-number\<close>, \<open>row-count\<close> and
  \<open>column-count\<close>, or \<open>None\<close>.
\<close>

type_synonym tableInfo = "string \<rightharpoonup> int"

definition getOr0 :: "tableInfo \<Rightarrow> string \<Rightarrow> int" where
  "getOr0 t k = (case t k of None \<Rightarrow> 0 | Some n \<Rightarrow> n)"

definition getTableInfoSpeech :: "tableInfo option \<Rightarrow> tableInfo option \<Rightarrow> SpeechSequence" where
  "getTableInfoSpeech tableInfo oldTableInfo =
     (case tableInfo of
        None \<Rightarrow> (case oldTableInfo of None \<Rightarrow> [] | Some old \<Rightarrow> [Str (lit ''out of table'')])
      | Some t \<Rightarrow>
          (let oldEmpty = (case oldTableInfo of None \<Rightarrow> True | Some old \<Rightarrow> old = Map.empty);
               old = (case oldTableInfo of None \<Rightarrow> Map.empty | Some old \<Rightarrow> old);
               newTable = (oldEmpty \<or> t ''table-id'' \<noteq> old ''table-id'');
               oldColumnNumber = (if oldEmpty then 0 else getOr0 old ''column-number'');
               columnNumber = getOr0 t ''column-number'';
               oldRowNumber = (if oldEmpty then 0 else getOr0 old ''row-number'');
               rowNumber = getOr0 t ''row-number''
           in
           (if newTable then
              [Str (lit ''table with '' @ columnCountText (getOr0 t ''column-count'')
                    @ lit '' and '' @ rowCountText (getOr0 t ''row-count''))]
            else []) @
           (if columnNumber \<noteq> oldColumnNumber
            then [Str (lit ''column '' @ str_int columnNumber)] else []) @
           (if rowNumber \<noteq> oldRowNumber
            then [Str (lit ''row '' @ str_int rowNumber)] else [])))"

section \<open>Text with fields\<close>

text \<open>
  \<open>info.getTextWithFields\<close> returns a list of strings and field commands. A field
  command has a command name and a field: a control field, a format field, some other
  field, or \<open>None\<close>.
\<close>

datatype textField = ControlField dict | FormatField dict | OtherField dict

fun fieldDict :: "textField \<Rightarrow> dict" where
  "fieldDict (ControlField d) = d"
| "fieldDict (FormatField d) = d"
| "fieldDict (OtherField d) = d"

fun mapField :: "(dict \<Rightarrow> dict) \<Rightarrow> textField \<Rightarrow> textField" where
  "mapField f (ControlField d) = ControlField (f d)"
| "mapField f (FormatField d) = FormatField (f d)"
| "mapField f (OtherField d) = OtherField (f d)"

datatype textItem = Text pystr | FieldCommand string "textField option"

datatype textUnit =
  UNIT_CHARACTER | UNIT_WORD | UNIT_LINE | UNIT_SENTENCE | UNIT_PARAGRAPH | UNIT_CELL
  | UNIT_READINGCHUNK | UNIT_OTHER

datatype presCat =
  PRESCAT_LAYOUT | PRESCAT_MARKER | PRESCAT_CELL | PRESCAT_SINGLELINE | PRESCAT_CONTAINER

text \<open>
  The document formatting configuration: the keys this module reads in the modelled
  functions, the key \<open>extraDetail\<close> that \<open>getTextInfoSpeech\<close> adds, and the remaining
  keys, which only the functions outside this model read.
\<close>

record formatConfig =
  reportLineIndentation :: ReportLineIndentation
  ignoreBlankLinesForRLI :: bool
  reportClickable :: bool
  reportSpellingErrors :: bool
  reportSuperscriptsAndSubscripts :: bool
  extraDetailKey :: bool
  otherKeys :: dict

section \<open>The cache of \<open>speakTextInfo\<close>\<close>

text \<open>
  \<open>SpeakTextInfoState\<close>. The cached format-field attributes are a dictionary object
  that several states may share, so the state holds a reference into a store of
  dictionaries. The control field stack is a list that the constructor copies, and the
  indentation is an immutable string, so both are held by value.
\<close>

record SpeakTextInfoState =
  controlFieldStackCache :: "dict list"
  formatFieldAttributesCache :: nat
  indentationCache :: pystr

text \<open>
  What a call can change: the store of dictionaries, the attribute
  \<open>_speakTextInfoState\<close> of the object \<open>info.obj\<close>, and the state object that the
  caller passed as \<open>useCache\<close> (used only when \<open>useCache\<close> is a state).
\<close>

record world =
  heap :: "nat \<Rightarrow> dict"
  nextRef :: nat
  obj_speakTextInfoState :: "SpeakTextInfoState option"
  callerState :: SpeakTextInfoState

datatype useCacheT = UseCacheFalse | UseCacheTrue | UseCacheState

text \<open>A new empty dictionary object.\<close>

definition newDict :: "world \<Rightarrow> nat \<times> world" where
  "newDict w = (nextRef w, w\<lparr>heap := (heap w)(nextRef w := Map.empty), nextRef := Suc (nextRef w)\<rparr>)"

text \<open>
  \<open>SpeakTextInfoState(obj)\<close> for an object that is not a state: the stack is copied,
  the attribute dictionary is shared with the state of the object.
\<close>

definition newStateFromObj :: "world \<Rightarrow> SpeakTextInfoState \<times> world" where
  "newStateFromObj w =
     (case obj_speakTextInfoState w of
        Some oldState \<Rightarrow>
          (\<lparr>controlFieldStackCache = controlFieldStackCache oldState,
            formatFieldAttributesCache = formatFieldAttributesCache oldState,
            indentationCache = indentationCache oldState\<rparr>, w)
      | None \<Rightarrow>
          (let (r, w') = newDict w in
           (\<lparr>controlFieldStackCache = [], formatFieldAttributesCache = r,
             indentationCache = []\<rparr>, w')))"

text \<open>
  \<open>updateObj\<close>: the object gets a copy of the state (the copy shares the attribute
  dictionary). The weak reference to the object is live during a call, since the text
  info of the call holds the object, and the object is true as a condition.
\<close>

definition updateObj :: "SpeakTextInfoState \<Rightarrow> world \<Rightarrow> world" where
  "updateObj s w = w\<lparr>obj_speakTextInfoState := Some s\<rparr>"

section \<open>What \<open>getTextInfoSpeech\<close> takes from outside\<close>

text \<open>
  The methods of the text info (\<open>getTextWithFields\<close>, \<open>getControlFieldSpeech\<close>,
  \<open>getMathMl\<close>), the presentation category of a control field, the math speech
  provider, enumeration members of \<open>controlTypes\<close>, and the configuration. The phrases
  that \<open>getFormatFieldSpeech\<close> builds from the attributes, the cached attributes and the
  configuration are a parameter as well (\<open>formatFieldPhrases\<close>): that part of the
  function only reads its arguments.
\<close>

record textInfoEnv =
  getTextWithFields :: "formatConfig \<Rightarrow> textItem list"
  getControlFieldSpeech ::
    "dict \<Rightarrow> dict list \<Rightarrow> string \<Rightarrow> formatConfig \<Rightarrow> bool \<Rightarrow> OutputReason
       \<Rightarrow> error + SpeechSequence"
  formatFieldPhrases ::
    "dict \<Rightarrow> dict \<Rightarrow> formatConfig \<Rightarrow> OutputReason \<Rightarrow> textUnit option \<Rightarrow> bool \<Rightarrow> bool
       \<Rightarrow> error + SpeechSequence"
  getPresentationCategory ::
    "dict \<Rightarrow> dict list \<Rightarrow> formatConfig \<Rightarrow> OutputReason \<Rightarrow> presCat option"
  mathSpeechProvider :: bool
  getSpeechForMathMl :: "dict \<Rightarrow> error + SpeechSequence"
  Role_MATH :: pyval
  State_CLICKABLE :: nat
  CLICKABLE_displayString :: pystr
  TextPosition_UNDEFINED :: pyval
  conf_documentFormatting :: formatConfig
  conf_delayedCharacterDescriptions :: bool
  speechMode :: SpeechMode
  spelling :: spellEnv

section \<open>Results that may raise\<close>

definition bindE :: "error + 'a \<Rightarrow> ('a \<Rightarrow> error + 'b) \<Rightarrow> error + 'b" where
  "bindE m f = (case m of Inl e \<Rightarrow> Inl e | Inr x \<Rightarrow> f x)"

text \<open>A step that may raise after it has changed the world: the world is kept.\<close>

definition bindW ::
  "world \<times> (error + 'a) \<Rightarrow> (world \<Rightarrow> 'a \<Rightarrow> world \<times> (error + 'b)) \<Rightarrow> world \<times> (error + 'b)" where
  "bindW m f = (case snd m of Inl e \<Rightarrow> (fst m, Inl e) | Inr x \<Rightarrow> f (fst m) x)"

section \<open>Format fields\<close>

text \<open>
  \<open>getFormatFieldSpeech\<close>: the phrases, then the replacement of the cached attributes
  in place (\<open>attrsCache.clear()\<close>, \<open>attrsCache.update(attrs)\<close>). With
  \<open>reportSuperscriptsAndSubscripts\<close> the function first stores the text position in
  \<open>attrs\<close>. In \<open>getTextInfoSpeech\<close> the cache argument is never \<open>None\<close>.
\<close>

definition getFormatFieldSpeech ::
  "textInfoEnv \<Rightarrow> dict \<Rightarrow> nat \<Rightarrow> formatConfig \<Rightarrow> OutputReason \<Rightarrow> textUnit option \<Rightarrow> bool
     \<Rightarrow> bool \<Rightarrow> world \<Rightarrow> world \<times> (error + SpeechSequence)" where
  "getFormatFieldSpeech env attrs attrsCache fc reason unit' extraDetail initialFormat w =
     (case formatFieldPhrases env attrs (heap w attrsCache) fc reason unit' extraDetail
             initialFormat of
        Inl e \<Rightarrow> (w, Inl e)
      | Inr textList \<Rightarrow>
          (let attrs' =
                 (if reportSuperscriptsAndSubscripts fc
                  then attrs(''text-position'' \<mapsto>
                         (case attrs ''text-position'' of
                            None \<Rightarrow> TextPosition_UNDEFINED env | Some v \<Rightarrow> v))
                  else attrs)
           in (w\<lparr>heap := (heap w)(attrsCache := attrs')\<rparr>, Inr textList)))"

section \<open>Control field stacks\<close>

text \<open>The fields at the start of the text and the control ends at its end.\<close>

fun isInitialFieldCommand :: "textItem \<Rightarrow> bool" where
  "isInitialFieldCommand (FieldCommand c f) = (c = ''controlStart'' \<or> c = ''formatChange'')"
| "isInitialFieldCommand (Text t) = False"

fun isControlEndFieldCommand :: "textItem \<Rightarrow> bool" where
  "isControlEndFieldCommand (FieldCommand c f) = (c = ''controlEnd'')"
| "isControlEndFieldCommand (Text t) = False"

fun commandField :: "textItem \<Rightarrow> textField option" where
  "commandField (FieldCommand c f) = f"
| "commandField (Text t) = None"

text \<open>The node bounds are deleted from every field that is not empty.\<close>

definition removeNodeBounds :: "textItem \<Rightarrow> textItem" where
  "removeNodeBounds item =
     (case item of
        Text t \<Rightarrow> Text t
      | FieldCommand c None \<Rightarrow> FieldCommand c None
      | FieldCommand c (Some f) \<Rightarrow>
          FieldCommand c
            (Some (mapField (\<lambda>d. if d = Map.empty then d
                                  else d(''_startOfNode'' := None, ''_endOfNode'' := None)) f)))"

text \<open>
  The new control field stack and the new format field from the initial fields;
  \<open>ValueError\<close> for a field that is neither a control field nor a format field.
\<close>

fun stacksOfInitialFields ::
  "textField option list \<Rightarrow> dict list \<Rightarrow> dict \<Rightarrow> error + dict list \<times> dict" where
  "stacksOfInitialFields [] newControlFieldStack newFormatField =
     Inr (newControlFieldStack, newFormatField)"
| "stacksOfInitialFields (Some (ControlField d) # fs) newControlFieldStack newFormatField =
     stacksOfInitialFields fs (newControlFieldStack @ [d]) newFormatField"
| "stacksOfInitialFields (Some (FormatField d) # fs) newControlFieldStack newFormatField =
     stacksOfInitialFields fs newControlFieldStack (newFormatField ++ d)"
| "stacksOfInitialFields (f # fs) newControlFieldStack newFormatField = Inl ValueError"

text \<open>
  Two control fields are the same when one of them has a \<open>uniqueID\<close> and the
  identifiers are equal, or when the dictionaries are equal.
\<close>

definition sameControlField :: "dict \<Rightarrow> dict \<Rightarrow> bool" where
  "sameControlField new old =
     (let oldUniqueID = pyget old ''uniqueID''; newUniqueID = pyget new ''uniqueID'' in
      ((oldUniqueID \<noteq> PNone \<or> newUniqueID \<noteq> PNone) \<and> newUniqueID = oldUniqueID) \<or> new = old)"

text \<open>
  The loop that counts the common fields: it walks both stacks from the outermost
  field and stops at the first pair that differs or at the end of the shorter stack.
\<close>

fun countCommonFields :: "dict list \<Rightarrow> dict list \<Rightarrow> nat" where
  "countCommonFields (new # newStack) (old # cache) =
     (if sameControlField new old then Suc (countCommonFields newStack cache) else 0)"
| "countCommonFields newStack cache = 0"

text \<open>\<open>int(v)\<close> for an integer or a string of decimal digits.\<close>

definition pyint :: "pyval \<Rightarrow> error + int" where
  "pyint v =
     (case v of
        PInt i \<Rightarrow> Inr i
      | PStr s \<Rightarrow>
          if s \<noteq> [] \<and> list_all (\<lambda>c. 48 \<le> c \<and> c \<le> 57) s
          then Inr (int (foldl (\<lambda>a c. 10 * a + (c - 48)) 0 s)) else Inl ValueError
      | _ \<Rightarrow> Inl TypeError)"

text \<open>
  The fields of the cached stack that are not in the new stack, innermost first: the
  loop over \<open>reversed(range(commonFieldCount, len(controlFieldStackCache)))\<close>, given
  the list of these indices. \<open>cf\<close> is \<open>info.getControlFieldSpeech\<close> applied to
  everything but the field and its ancestors.
\<close>

fun removedFieldsLoop ::
  "(dict \<Rightarrow> dict list \<Rightarrow> error + SpeechSequence) \<Rightarrow> OutputReason \<Rightarrow> dict list \<Rightarrow> nat list
     \<Rightarrow> SpeechSequence \<Rightarrow> bool \<Rightarrow> error + SpeechSequence \<times> bool" where
  "removedFieldsLoop cf reason cache [] speechSequence endingBlock =
     Inr (speechSequence, endingBlock)"
| "removedFieldsLoop cf reason cache (i # indices) speechSequence endingBlock =
     bindE (cf (cache ! i) (take i cache)) (\<lambda>fieldSequence.
       bindE (if \<not> endingBlock \<and> reason = SAYALL
              then bindE (pyint (case (cache ! i) ''isBlock'' of None \<Rightarrow> PInt 0 | Some v \<Rightarrow> v))
                     (\<lambda>b. Inr (b \<noteq> 0))
              else Inr endingBlock) (\<lambda>endingBlock'.
         removedFieldsLoop cf reason cache indices (speechSequence @ fieldSequence)
           endingBlock'))"

definition removedFieldsSpeech ::
  "(dict \<Rightarrow> dict list \<Rightarrow> error + SpeechSequence) \<Rightarrow> OutputReason \<Rightarrow> dict list \<Rightarrow> nat
     \<Rightarrow> error + SpeechSequence" where
  "removedFieldsSpeech cf reason cache commonFieldCount =
     (if reason \<notin> {FOCUS, QUICKNAV} then
        bindE (removedFieldsLoop cf reason cache
                 (rev [commonFieldCount ..< length cache]) [] False)
          (\<lambda>(speechSequence, endingBlock).
             Inr (speechSequence @ (if endingBlock then [EndUtteranceCommand] else [])))
      else Inr [])"

text \<open>
  \<open>_extendSpeechSequence_addMathForTextInfo\<close>: what is appended. \<open>IndexError\<close>
  and \<open>KeyError\<close> are lookup errors.
\<close>

definition addMathForTextInfo :: "textInfoEnv \<Rightarrow> dict \<Rightarrow> error + SpeechSequence" where
  "addMathForTextInfo env f =
     (if \<not> mathSpeechProvider env then Inr []
      else (case getSpeechForMathMl env f of
              Inr s \<Rightarrow> Inr s
            | Inl e \<Rightarrow> if e \<in> {NotImplementedError, LookupError, IndexError, KeyError}
                        then Inr [] else Inl e))"

text \<open>
  The fields common to both stacks (\<open>start_inControlFieldStack\<close>): the loop over
  \<open>range(commonFieldCount)\<close>. The result is what is appended and whether something
  was said that makes the text not blank.
\<close>

fun commonFieldsLoop ::
  "textInfoEnv \<Rightarrow> (dict \<Rightarrow> dict list \<Rightarrow> error + SpeechSequence) \<Rightarrow> dict list \<Rightarrow> nat list
     \<Rightarrow> SpeechSequence \<Rightarrow> bool \<Rightarrow> error + SpeechSequence \<times> bool" where
  "commonFieldsLoop env cf stack [] speechSequence notBlank = Inr (speechSequence, notBlank)"
| "commonFieldsLoop env cf stack (i # indices) speechSequence notBlank =
     bindE (cf (stack ! i) (take i stack)) (\<lambda>fieldSequence.
       bindE (if pyget (stack ! i) ''role'' = Role_MATH env
              then addMathForTextInfo env (stack ! i) else Inr []) (\<lambda>math.
         commonFieldsLoop env cf stack indices (speechSequence @ fieldSequence @ math)
           (notBlank \<or> fieldSequence \<noteq> [] \<or> pyget (stack ! i) ''role'' = Role_MATH env)))"

text \<open>\<open>states and controlTypes.State.CLICKABLE in states\<close>.\<close>

definition hasClickableState :: "textInfoEnv \<Rightarrow> dict \<Rightarrow> bool" where
  "hasClickableState env f =
     (case pyget f ''states'' of PSet S \<Rightarrow> State_CLICKABLE env \<in> S | _ \<Rightarrow> False)"

definition announcesNothingElse :: "presCat option \<Rightarrow> bool" where
  "announcesNothingElse p = (p = None \<or> p = Some PRESCAT_LAYOUT)"

text \<open>
  The fields of the new stack that are not in the cached stack
  (\<open>start_addedToControlFieldStack\<close>): the loop over
  \<open>range(commonFieldCount, len(newControlFieldStack))\<close>, with \<open>inClickable\<close>.
\<close>

fun addedFieldsLoop ::
  "textInfoEnv \<Rightarrow> (dict \<Rightarrow> dict list \<Rightarrow> error + SpeechSequence) \<Rightarrow> formatConfig \<Rightarrow> OutputReason
     \<Rightarrow> dict list \<Rightarrow> nat list \<Rightarrow> SpeechSequence \<Rightarrow> bool \<Rightarrow> bool
     \<Rightarrow> error + SpeechSequence \<times> bool" where
  "addedFieldsLoop env cf fc reason stack [] speechSequence notBlank inClickable =
     Inr (speechSequence, notBlank)"
| "addedFieldsLoop env cf fc reason stack (i # indices) speechSequence notBlank inClickable =
     (let f = stack ! i;
          entersClickable = (\<not> inClickable \<and> reportClickable fc \<and> hasClickableState env f);
          clickable = (entersClickable \<and>
             announcesNothingElse (getPresentationCategory env f (take i stack) fc reason))
      in
      bindE (cf f (take i stack)) (\<lambda>fieldSequence.
        bindE (if pyget f ''role'' = Role_MATH env then addMathForTextInfo env f else Inr [])
          (\<lambda>math.
             addedFieldsLoop env cf fc reason stack indices
               (speechSequence @ (if clickable then [Str (CLICKABLE_displayString env)] else [])
                  @ fieldSequence @ math)
               (notBlank \<or> clickable \<or> fieldSequence \<noteq> [] \<or> pyget f ''role'' = Role_MATH env)
               (inClickable \<or> entersClickable))))"

section \<open>The text after the initial fields\<close>

text \<open>
  \<open>splitTextIndentation\<close>: \<open>RE_INDENTATION_SPLIT\<close> takes the leading whitespace
  other than carriage return, line feed, form feed and vertical tab.
\<close>

definition isIndentationChar :: "nat \<Rightarrow> bool" where
  "isIndentationChar c = (isspace_char c \<and> c \<notin> {13, 10, 12, 11})"

definition splitTextIndentation :: "pystr \<Rightarrow> pystr \<times> pystr" where
  "splitTextIndentation t = (takeWhile isIndentationChar t, dropWhile isIndentationChar t)"

text \<open>The variables of the loop over the text and the field commands.\<close>

record relState =
  newControlFieldStack :: "dict list"
  commonFieldCount :: nat
  inClickable :: bool
  relativeSpeechSequence :: SpeechSequence
  inTextChunk :: bool
  allIndentation :: pystr
  indentationDone :: bool
  fieldSequence :: SpeechSequence
  lastLanguage :: "pystr option"

text \<open>What does not change during one call.\<close>

record callCtx =
  cx_formatConfig :: formatConfig
  cx_reason :: OutputReason
  cx_unit :: "textUnit option"
  cx_extraDetail :: bool
  cx_reportIndentation :: bool
  cx_cacheRef :: nat

definition langOf :: "pyval \<Rightarrow> pystr option" where
  "langOf v = (case v of PStr s \<Rightarrow> Some s | _ \<Rightarrow> None)"

text \<open>\<open>relativeSpeechSequence[-1] += command\<close>.\<close>

definition appendToLast :: "SpeechSequence \<Rightarrow> pystr \<Rightarrow> error + SpeechSequence" where
  "appendToLast s t =
     (case rev s of
        [] \<Rightarrow> Inl IndexError
      | Str u # r \<Rightarrow> Inr (rev r @ [Str (u @ t)])
      | _ \<Rightarrow> Inl TypeError)"

text \<open>A string in the loop.\<close>

definition relativeText :: "callCtx \<Rightarrow> pystr \<Rightarrow> relState \<Rightarrow> error + relState" where
  "relativeText cx t rs =
     (let rs1 = rs\<lparr>inClickable := False\<rparr>;
          splitNow = (cx_reportIndentation cx \<and> \<not> indentationDone rs1);
          t' = (if splitNow then snd (splitTextIndentation t) else t);
          rs2 = (if splitNow
                 then rs1\<lparr>allIndentation := allIndentation rs1 @ fst (splitTextIndentation t),
                          indentationDone := (t' \<noteq> [])\<rparr>
                 else rs1)
      in
      if t' \<noteq> [] then
        (if inTextChunk rs2 then
           bindE (appendToLast (relativeSpeechSequence rs2) t')
             (\<lambda>s. Inr (rs2\<lparr>relativeSpeechSequence := s\<rparr>))
         else Inr (rs2\<lparr>relativeSpeechSequence := relativeSpeechSequence rs2 @ [Str t'],
                        inTextChunk := True\<rparr>))
      else Inr rs2)"

text \<open>
  A field command in the loop, first part: the branch for the command name. The result
  is the loop variables and \<open>newLanguage\<close>. A field that is \<open>None\<close> has no attributes
  (\<open>AttributeError\<close>), and only a control field has a presentation category.
\<close>

definition relativeControlStart ::
  "textInfoEnv \<Rightarrow> callCtx \<Rightarrow> textField option \<Rightarrow> relState \<Rightarrow> error + relState" where
  "relativeControlStart env cx f rs =
     (case f of
        None \<Rightarrow> Inl AttributeError
      | Some fld \<Rightarrow>
          (let d = fieldDict fld;
               stack = newControlFieldStack rs;
               entersClickable = (\<not> inClickable rs \<and> reportClickable (cx_formatConfig cx)
                                  \<and> hasClickableState env d)
           in
           if entersClickable \<and> (case fld of ControlField x \<Rightarrow> False | _ \<Rightarrow> True)
           then Inl AttributeError
           else
             bindE (getControlFieldSpeech env d stack ''start_relative'' (cx_formatConfig cx)
                      (cx_extraDetail cx) (cx_reason cx))
               (\<lambda>s. Inr (rs\<lparr>inTextChunk := False,
                              fieldSequence :=
                                (if entersClickable \<and> announcesNothingElse
                                      (getPresentationCategory env d stack (cx_formatConfig cx)
                                         (cx_reason cx))
                                 then [Str (CLICKABLE_displayString env)] else []) @ s,
                              inClickable := (inClickable rs \<or> entersClickable),
                              newControlFieldStack := stack @ [d]\<rparr>))))"

definition relativeControlEnd ::
  "textInfoEnv \<Rightarrow> callCtx \<Rightarrow> relState \<Rightarrow> error + relState" where
  "relativeControlEnd env cx rs =
     (let stack = newControlFieldStack rs in
      if stack = [] then Inl IndexError
      else
        bindE (getControlFieldSpeech env (last stack) (butlast stack) ''end_relative''
                 (cx_formatConfig cx) (cx_extraDetail cx) (cx_reason cx))
          (\<lambda>s. Inr (rs\<lparr>inClickable := False, inTextChunk := False, fieldSequence := s,
                         newControlFieldStack := butlast stack,
                         commonFieldCount := min (commonFieldCount rs) (length (butlast stack))\<rparr>)))"

definition relativeFormatChange ::
  "textInfoEnv \<Rightarrow> callCtx \<Rightarrow> textField option \<Rightarrow> relState \<Rightarrow> world
     \<Rightarrow> world \<times> (error + relState \<times> pystr option)" where
  "relativeFormatChange env cx f rs w =
     (case f of
        None \<Rightarrow> (w, Inl AttributeError)
      | Some fld \<Rightarrow>
          bindW (getFormatFieldSpeech env (fieldDict fld) (cx_cacheRef cx) (cx_formatConfig cx)
                   (cx_reason cx) (cx_unit cx) (cx_extraDetail cx) False w)
            (\<lambda>w' s.
               (let newLanguage =
                      (if shouldMakeLangChangeCommand (spelling env)
                       then langOf (pyget (fieldDict fld) ''language'') else None)
                in (w', Inr (rs\<lparr>fieldSequence := s,
                                 inTextChunk :=
                                   (inTextChunk rs \<and> s = []
                                    \<and> \<not> (shouldMakeLangChangeCommand (spelling env)
                                          \<and> lastLanguage rs \<noteq> newLanguage))\<rparr>,
                             newLanguage)))))"

text \<open>
  A field command in the loop, second part: what is appended to the relative speech
  sequence when the command has ended the text chunk.
\<close>

definition relativeAfterField ::
  "textInfoEnv \<Rightarrow> string \<Rightarrow> textField option \<Rightarrow> relState \<Rightarrow> pystr option \<Rightarrow> error + relState" where
  "relativeAfterField env c f rs newLanguage =
     (if inTextChunk rs then Inr rs
      else
        (let resetLang = (fieldSequence rs \<noteq> [] \<and> shouldMakeLangChangeCommand (spelling env)
                          \<and> lastLanguage rs \<noteq> None);
             rs1 = rs\<lparr>relativeSpeechSequence :=
                        relativeSpeechSequence rs
                        @ (if resetLang then [LangChangeCommand None] else [])
                        @ fieldSequence rs,
                      lastLanguage := (if resetLang then None else lastLanguage rs)\<rparr>
         in
         bindE (if c = ''controlStart''
                   \<and> (case f of None \<Rightarrow> False
                       | Some fld \<Rightarrow> pyget (fieldDict fld) ''role'' = Role_MATH env)
                then addMathForTextInfo env (fieldDict (the f)) else Inr [])
           (\<lambda>math.
              (let rs2 = rs1\<lparr>relativeSpeechSequence := relativeSpeechSequence rs1 @ math\<rparr> in
               if shouldMakeLangChangeCommand (spelling env) \<and> newLanguage \<noteq> lastLanguage rs2
               then Inr (rs2\<lparr>relativeSpeechSequence :=
                               relativeSpeechSequence rs2 @ [LangChangeCommand newLanguage],
                             lastLanguage := newLanguage\<rparr>)
               else Inr rs2))))"

definition relativeStep ::
  "textInfoEnv \<Rightarrow> callCtx \<Rightarrow> textItem \<Rightarrow> relState \<Rightarrow> world \<Rightarrow> world \<times> (error + relState)" where
  "relativeStep env cx item rs w =
     (case item of
        Text t \<Rightarrow> (w, relativeText cx t rs)
      | FieldCommand c f \<Rightarrow>
          bindW
            (if c = ''controlStart'' then
               (w, bindE (relativeControlStart env cx f rs) (\<lambda>rs'. Inr (rs', None)))
             else if c = ''controlEnd'' then
               (w, bindE (relativeControlEnd env cx rs) (\<lambda>rs'. Inr (rs', None)))
             else if c = ''formatChange'' then relativeFormatChange env cx f rs w
             else (w, Inr (rs, None)))
            (\<lambda>w' (rs', newLanguage). (w', relativeAfterField env c f rs' newLanguage)))"

fun relativeLoop ::
  "textInfoEnv \<Rightarrow> callCtx \<Rightarrow> textItem list \<Rightarrow> relState \<Rightarrow> world \<Rightarrow> world \<times> (error + relState)" where
  "relativeLoop env cx [] rs w = (w, Inr rs)"
| "relativeLoop env cx (item # items) rs w =
     bindW (relativeStep env cx item rs w) (\<lambda>w' rs'. relativeLoop env cx items rs' w')"

text \<open>
  The fields still open at the end that were common with the cached stack
  (\<open>end_inControlFieldStack\<close>), innermost first.
\<close>

fun closingFieldsLoop ::
  "(dict \<Rightarrow> dict list \<Rightarrow> error + SpeechSequence) \<Rightarrow> dict list \<Rightarrow> nat list \<Rightarrow> SpeechSequence
     \<Rightarrow> error + SpeechSequence" where
  "closingFieldsLoop cf stack [] speechSequence = Inr speechSequence"
| "closingFieldsLoop cf stack (i # indices) speechSequence =
     bindE (cf (stack ! i) (take i stack))
       (\<lambda>s. closingFieldsLoop cf stack indices (speechSequence @ s))"

section \<open>Spelling a single character of text\<close>

definition getSingleCharDescriptionDelayMS :: int where
  "getSingleCharDescriptionDelayMS = 1000"

definition getSingleCharDescription :: "spellEnv \<Rightarrow> pystr \<Rightarrow> pystr option \<Rightarrow> SpeechSequence" where
  "getSingleCharDescription env t loc =
     (if \<not> length t = 1 then []
      else
        BreakCommand getSingleCharDescriptionDelayMS #
        getSpellingSpeechWithoutCharMode env
          \<lparr>useCharacterDescriptions = True,
           sayCapForCapitals = False,
           capPitchChange =
             (if synthSupportsPitchCommand env \<and> isupper env t then conf_capPitchChange env else 0),
           beepForCapitals = False,
           fallbackToCharIfNoDescription = False,
           unicodeNormalization = False,
           reportNormalizedForCharacterNavigation = False\<rparr>
          t loc)"

fun isStr :: "SequenceItemT \<Rightarrow> bool" where
  "isStr (Str s) = True"
| "isStr x = False"

text \<open>\<open>_getTextInfoSpeech_considerSpelling\<close>: the sequences it yields.\<close>

definition getTextInfoSpeech_considerSpelling ::
  "textInfoEnv \<Rightarrow> textUnit option \<Rightarrow> bool \<Rightarrow> textItem list \<Rightarrow> OutputReason \<Rightarrow> SpeechSequence
     \<Rightarrow> pystr option \<Rightarrow> error + SpeechSequence list" where
  "getTextInfoSpeech_considerSpelling env unit' onlyInitialFields textWithFields reason
       speechSequence language =
     (let first = (if onlyInitialFields \<or> list_ex isStr speechSequence
                   then [speechSequence] else [])
      in
      if onlyInitialFields then Inr first
      else
        (case textWithFields of
           [] \<Rightarrow> Inl IndexError
         | FieldCommand c f # r \<Rightarrow> Inl TypeError
         | Text t # r \<Rightarrow>
             Inr (first @ [getSpellingSpeech (spelling env) t language False] @
                  (if reason = CARET \<and> unit' = Some UNIT_CHARACTER
                      \<and> conf_delayedCharacterDescriptions env
                   then [getSingleCharDescription (spelling env) t language] else []))))"

section \<open>Updating the cache\<close>

text \<open>
  \<open>_getTextInfoSpeech_updateCache\<close>: the state gets the new stack and the attribute
  dictionary; unless the caller passed a state, the object gets a copy of the state.
  When the caller passed a state, that state is the one modified.
\<close>

definition getTextInfoSpeech_updateCache ::
  "useCacheT \<Rightarrow> SpeakTextInfoState \<Rightarrow> dict list \<Rightarrow> nat \<Rightarrow> world \<Rightarrow> world" where
  "getTextInfoSpeech_updateCache useCache speakTextInfoState stack cacheRef w =
     (let s = speakTextInfoState\<lparr>controlFieldStackCache := stack,
                                  formatFieldAttributesCache := cacheRef\<rparr>
      in if useCache = UseCacheState then w\<lparr>callerState := s\<rparr> else updateObj s w)"

definition LINE_END_CHARS :: "nat set" where
  "LINE_END_CHARS = {13, 10}"

fun textOf :: "textItem \<Rightarrow> pystr option" where
  "textOf (Text t) = Some t"
| "textOf (FieldCommand c f) = None"

section \<open>\<open>getTextInfoSpeech\<close>\<close>

text \<open>
  The second half of the function, after the speech for the initial format field: the
  loop over the text and field commands (\<open>relativeLoop\<close>), and what follows the
  loop: the indentation, the closing fields, the update of the cache.
  \<open>speechSequence\<close> is the sequence built so far; when language changes are made its
  last item is the language change for the initial format field, with the language
  \<open>language\<close>.
\<close>

definition closingFieldsSpeech :: "textInfoEnv \<Rightarrow> callCtx \<Rightarrow> relState \<Rightarrow> error + SpeechSequence" where
  "closingFieldsSpeech env cx rs =
     (if \<not> cx_extraDetail cx then
        closingFieldsLoop
          (\<lambda>f anc. getControlFieldSpeech env f anc ''end_inControlFieldStack''
                      (cx_formatConfig cx) (cx_extraDetail cx) (cx_reason cx))
          (newControlFieldStack rs)
          (rev [0 ..< min (length (newControlFieldStack rs)) (commonFieldCount rs)]) []
      else Inr [])"

definition getTextInfoSpeech_closing ::
  "textInfoEnv \<Rightarrow> callCtx \<Rightarrow> useCacheT \<Rightarrow> SpeakTextInfoState option \<Rightarrow> bool \<Rightarrow> textItem list
     \<Rightarrow> SpeechSequence \<Rightarrow> pystr option \<Rightarrow> bool \<Rightarrow> world \<Rightarrow> relState
     \<Rightarrow> world \<times> (error + SpeechSequence list \<times> bool)" where
  "getTextInfoSpeech_closing env cx useCache speakTextInfoState suppressBlanks textWithFields
       speechSequence language notBlank w1 rs =
       (let langChanges = shouldMakeLangChangeCommand (spelling env);
            fc = cx_formatConfig cx;
            reportsIndentation =
              (cx_reportIndentation cx \<and> speakTextInfoState \<noteq> None
               \<and> (\<not> ignoreBlankLinesForRLI fc
                    \<or> list_ex (\<lambda>item. case textOf item of
                                         None \<Rightarrow> False
                                       | Some t \<Rightarrow> \<not> set t \<subseteq> LINE_END_CHARS) textWithFields)
               \<and> allIndentation rs \<noteq> indentationCache (the speakTextInfoState));
            indentationSpeech =
              getIndentationSpeech (processSpeechSymbol (spelling env))
                (getLanguage (spelling env)) (speechMode env) (allIndentation rs)
                (reportLineIndentation fc);
            speechSequence1 =
              (if reportsIndentation then
                 (if langChanges \<and> language \<noteq> None
                  then butlast speechSequence @ indentationSpeech @ [last speechSequence]
                  else speechSequence @ indentationSpeech)
               else speechSequence);
            state1 = (if reportsIndentation
                      then map_option (\<lambda>s. s\<lparr>indentationCache := allIndentation rs\<rparr>)
                             speakTextInfoState
                      else speakTextInfoState);
            w2 = (if reportsIndentation \<and> useCache = UseCacheState
                  then w1\<lparr>callerState := the state1\<rparr> else w1);
            relativeBlank =
              (\<not> list_ex (\<lambda>x. case x of Str t \<Rightarrow> \<not> isBlank t | _ \<Rightarrow> False)
                    (relativeSpeechSequence rs));
            speechSequence2 =
              speechSequence1
              @ (if \<not> relativeBlank then relativeSpeechSequence rs else [])
              @ (if langChanges \<and> lastLanguage rs \<noteq> None then [LangChangeCommand None] else []);
            stack = newControlFieldStack rs
        in
        case closingFieldsSpeech env cx rs of
          Inl e \<Rightarrow> (w2, Inl e)
        | Inr closing \<Rightarrow>
            (let shouldConsiderTextInfoBlank = (\<not> notBlank \<and> relativeBlank \<and> closing = []);
                 speechSequence3 =
                   speechSequence2 @ closing
                   @ (if \<not> suppressBlanks \<and> cx_reason cx \<noteq> SAYALL
                         \<and> shouldConsiderTextInfoBlank
                      then [Str (lit ''blank'')] else []);
                 w3 = (if useCache \<noteq> UseCacheFalse
                       then getTextInfoSpeech_updateCache useCache (the state1) stack
                              (cx_cacheRef cx) w2
                       else w2)
             in
             (w3, Inr (if cx_reason cx = ONLYCACHE \<or> speechSequence3 = []
                       then ([], False) else ([speechSequence3], True)))))"

definition getTextInfoSpeech_relative ::
  "textInfoEnv \<Rightarrow> callCtx \<Rightarrow> useCacheT \<Rightarrow> SpeakTextInfoState option \<Rightarrow> bool \<Rightarrow> textItem list
     \<Rightarrow> SpeechSequence \<Rightarrow> pystr option \<Rightarrow> bool \<Rightarrow> relState \<Rightarrow> world
     \<Rightarrow> world \<times> (error + SpeechSequence list \<times> bool)" where
  "getTextInfoSpeech_relative env cx useCache speakTextInfoState suppressBlanks textWithFields
       speechSequence language notBlank rs0 w =
     bindW (relativeLoop env cx textWithFields rs0 w)
       (getTextInfoSpeech_closing env cx useCache speakTextInfoState suppressBlanks
          textWithFields speechSequence language notBlank)"

text \<open>
  The first half of the function, from the new stacks to the speech for the fields
  removed from, common to and added to the stack. It changes nothing; the result is
  the new stack, the new format field, the number of common fields after the loop over
  the added fields, the speech sequence so far and whether something was said that
  makes the text not blank. A prefix command that is a string fails the assertion.
\<close>

definition getTextInfoSpeech_initial ::
  "textInfoEnv \<Rightarrow> formatConfig \<Rightarrow> bool \<Rightarrow> OutputReason \<Rightarrow> SequenceItemT option
     \<Rightarrow> textField option list \<Rightarrow> dict list
     \<Rightarrow> error + dict list \<times> dict \<times> nat \<times> SpeechSequence \<times> bool" where
  "getTextInfoSpeech_initial env fc extraDetail reason prefixSpeechCommand initialFields cache =
     (let cf = (\<lambda>fieldType f anc. getControlFieldSpeech env f anc fieldType fc extraDetail reason)
      in
      bindE (stacksOfInitialFields initialFields [] Map.empty) (\<lambda>(stack, newFormatField).
        (let common = countCommonFields stack cache in
         bindE (removedFieldsSpeech (cf ''end_removedFromControlFieldStack'') reason cache common)
           (\<lambda>removed.
              bindE (case prefixSpeechCommand of
                       None \<Rightarrow> Inr []
                     | Some (Str s) \<Rightarrow> Inl AssertionError
                     | Some c \<Rightarrow> Inr [c]) (\<lambda>prefix.
                bindE (if \<not> extraDetail
                       then commonFieldsLoop env (cf ''start_inControlFieldStack'') stack
                              [0 ..< common] [] False
                       else Inr ([], False)) (\<lambda>(inStack, notBlank1).
                  bindE (addedFieldsLoop env (cf ''start_addedToControlFieldStack'') fc reason
                           stack [common ..< length stack] [] notBlank1 False)
                    (\<lambda>(added, notBlank2).
                       Inr (stack, newFormatField,
                            common + length [common ..< length stack],
                            removed @ prefix @ inStack @ added, notBlank2))))))))"

text \<open>
  The function from the speech for the initial format field on
  (\<open>getTextInfoSpeech_text\<close>): that speech, which replaces the cached attributes,
  and what follows it (\<open>getTextInfoSpeech_afterFormat\<close>): the language, and then
  either the branch that spells the first text (only the initial fields are wanted, or
  the text is a single character read by character or word) or the second half above.
  \<open>info.getFormatFieldSpeech\<close> is this module's \<open>getFormatFieldSpeech\<close>.
\<close>

definition spellsFirstText :: "textInfoEnv \<Rightarrow> callCtx \<Rightarrow> bool \<Rightarrow> textItem list \<Rightarrow> bool" where
  "spellsFirstText env cx onlyInitialFields textWithFields =
     (let firstText =
            (case textWithFields of
               Text t # r \<Rightarrow> if \<not> isspace t then strip t else t
             | _ \<Rightarrow> [])
      in onlyInitialFields
         \<or> (cx_extraDetail cx
             \<and> (length firstText = 1 \<or> length (unicodeNormalize (spelling env) firstText) = 1)
             \<and> list_all isControlEndFieldCommand (tl textWithFields)))"

definition spellingYield ::
  "textInfoEnv \<Rightarrow> callCtx \<Rightarrow> bool \<Rightarrow> textItem list \<Rightarrow> SpeechSequence \<Rightarrow> pystr option
     \<Rightarrow> error + SpeechSequence list" where
  "spellingYield env cx onlyInitialFields textWithFields speechSequence language =
     (if cx_reason cx \<noteq> ONLYCACHE
      then getTextInfoSpeech_considerSpelling env (cx_unit cx) onlyInitialFields
             textWithFields (cx_reason cx) speechSequence language
      else Inr [])"

definition getTextInfoSpeech_spelling ::
  "textInfoEnv \<Rightarrow> callCtx \<Rightarrow> useCacheT \<Rightarrow> SpeakTextInfoState option \<Rightarrow> bool
     \<Rightarrow> textItem list \<Rightarrow> dict list \<Rightarrow> SpeechSequence \<Rightarrow> pystr option \<Rightarrow> world
     \<Rightarrow> world \<times> (error + SpeechSequence list \<times> bool)" where
  "getTextInfoSpeech_spelling env cx useCache speakTextInfoState onlyInitialFields
       textWithFields stack speechSequence language w3 =
     (case spellingYield env cx onlyInitialFields textWithFields speechSequence language of
        Inl e \<Rightarrow> (w3, Inl e)
      | Inr yielded \<Rightarrow>
          ((if useCache \<noteq> UseCacheFalse
            then getTextInfoSpeech_updateCache useCache (the speakTextInfoState)
                   stack (cx_cacheRef cx) w3
            else w3),
           Inr (yielded, False)))"

definition getTextInfoSpeech_afterFormat ::
  "textInfoEnv \<Rightarrow> callCtx \<Rightarrow> useCacheT \<Rightarrow> SpeakTextInfoState option \<Rightarrow> bool \<Rightarrow> bool
     \<Rightarrow> textItem list \<Rightarrow> dict list \<Rightarrow> dict \<Rightarrow> nat \<Rightarrow> SpeechSequence \<Rightarrow> bool \<Rightarrow> world
     \<Rightarrow> SpeechSequence \<Rightarrow> world \<times> (error + SpeechSequence list \<times> bool)" where
  "getTextInfoSpeech_afterFormat env cx useCache speakTextInfoState onlyInitialFields
       suppressBlanks textWithFields stack newFormatField common speechSequence0 notBlank w3
       formatSpeech =
     (let langChanges = shouldMakeLangChangeCommand (spelling env);
          language = (if langChanges then langOf (pyget newFormatField ''language'')
                      else None);
          speechSequence =
            speechSequence0 @ formatSpeech
            @ (if langChanges then [LangChangeCommand language] else [])
      in
      if spellsFirstText env cx onlyInitialFields textWithFields
      then getTextInfoSpeech_spelling env cx useCache speakTextInfoState onlyInitialFields
             textWithFields stack speechSequence language w3
      else
        getTextInfoSpeech_relative env cx useCache speakTextInfoState suppressBlanks
          textWithFields speechSequence language notBlank
          \<lparr>newControlFieldStack = stack, commonFieldCount = common,
           inClickable = False, relativeSpeechSequence = [], inTextChunk = False,
           allIndentation = [], indentationDone = False,
           fieldSequence = formatSpeech, lastLanguage = language\<rparr>
          w3)"

definition getTextInfoSpeech_text ::
  "textInfoEnv \<Rightarrow> callCtx \<Rightarrow> useCacheT \<Rightarrow> SpeakTextInfoState option \<Rightarrow> bool \<Rightarrow> bool
     \<Rightarrow> textItem list \<Rightarrow> dict list \<Rightarrow> dict \<Rightarrow> nat \<Rightarrow> SpeechSequence \<Rightarrow> bool \<Rightarrow> world
     \<Rightarrow> world \<times> (error + SpeechSequence list \<times> bool)" where
  "getTextInfoSpeech_text env cx useCache speakTextInfoState onlyInitialFields suppressBlanks
       textWithFields stack newFormatField common speechSequence0 notBlank w =
     bindW (getFormatFieldSpeech env newFormatField (cx_cacheRef cx) (cx_formatConfig cx)
              (cx_reason cx) (cx_unit cx) (cx_extraDetail cx) True w)
       (getTextInfoSpeech_afterFormat env cx useCache speakTextInfoState onlyInitialFields
          suppressBlanks textWithFields stack newFormatField common speechSequence0 notBlank)"

text \<open>
  The first statements of the function: the state that the call works on, the
  configuration it uses, and the dictionary of cached attributes (a new empty one when
  there is no state).
\<close>

definition stateForCall :: "useCacheT \<Rightarrow> world \<Rightarrow> SpeakTextInfoState option \<times> world" where
  "stateForCall useCache w =
     (case useCache of
        UseCacheState \<Rightarrow> (Some (callerState w), w)
      | UseCacheTrue \<Rightarrow> (let (s, w') = newStateFromObj w in (Some s, w'))
      | UseCacheFalse \<Rightarrow> (None, w))"

definition configForCall ::
  "textInfoEnv \<Rightarrow> formatConfig option \<Rightarrow> textUnit option \<Rightarrow> OutputReason \<Rightarrow> formatConfig" where
  "configForCall env formatConfig unit' reason =
     (let extraDetail = (unit' \<in> {Some UNIT_CHARACTER, Some UNIT_WORD});
          fc0 = (case formatConfig of None \<Rightarrow> conf_documentFormatting env | Some c \<Rightarrow> c);
          fc1 = (if extraDetail then fc0\<lparr>extraDetailKey := True\<rparr> else fc0)
      in if unit' \<in> {Some UNIT_PARAGRAPH, Some UNIT_CELL} \<and> reason = CARET
         then fc1\<lparr>reportSpellingErrors := False\<rparr> else fc1)"

definition attributesForCall :: "SpeakTextInfoState option \<Rightarrow> world \<Rightarrow> nat \<times> world" where
  "attributesForCall speakTextInfoState w =
     (case speakTextInfoState of
        None \<Rightarrow> newDict w
      | Some s \<Rightarrow> (formatFieldAttributesCache s, w))"

text \<open>
  The whole function. The generator is run to its end: the result is the list of the
  sequences it yields and the value it returns.
\<close>

definition getTextInfoSpeech ::
  "textInfoEnv \<Rightarrow> useCacheT \<Rightarrow> formatConfig option \<Rightarrow> textUnit option \<Rightarrow> OutputReason
     \<Rightarrow> SequenceItemT option \<Rightarrow> bool \<Rightarrow> bool \<Rightarrow> world
     \<Rightarrow> world \<times> (error + SpeechSequence list \<times> bool)" where
  "getTextInfoSpeech env useCache formatConfig unit' reason prefixSpeechCommand onlyInitialFields
       suppressBlanks w =
     (let (speakTextInfoState, w1) = stateForCall useCache w;
          extraDetail = (unit' \<in> {Some UNIT_CHARACTER, Some UNIT_WORD});
          fc = configForCall env formatConfig unit' reason;
          reportIndentation = (unit' = Some UNIT_LINE \<and> reportLineIndentation fc \<noteq> OFF);
          cache = (case speakTextInfoState of None \<Rightarrow> [] | Some s \<Rightarrow> controlFieldStackCache s);
          (cacheRef, w2) = attributesForCall speakTextInfoState w1;
          fetched = map removeNodeBounds (getTextWithFields env fc);
          initialFields = map commandField (takeWhile isInitialFieldCommand fetched);
          textWithFields =
            rev (dropWhile isControlEndFieldCommand
                   (rev (dropWhile isInitialFieldCommand fetched)))
      in
      case getTextInfoSpeech_initial env fc extraDetail reason prefixSpeechCommand initialFields
             cache of
        Inl e \<Rightarrow> (w2, Inl e)
      | Inr (stack, newFormatField, common, speechSequence0, notBlank) \<Rightarrow>
          getTextInfoSpeech_text env
            \<lparr>cx_formatConfig = fc, cx_reason = reason, cx_unit = unit',
             cx_extraDetail = extraDetail, cx_reportIndentation = reportIndentation,
             cx_cacheRef = cacheRef\<rparr>
            useCache speakTextInfoState onlyInitialFields suppressBlanks textWithFields
            stack newFormatField common speechSequence0 notBlank w2)"

section \<open>Notions used to state the properties\<close>

text \<open>Character mode along a sequence: the mode in force at each text chunk.\<close>

fun isCharacterModeCommand :: "SequenceItemT \<Rightarrow> bool" where
  "isCharacterModeCommand (CharacterModeCommand b) = True"
| "isCharacterModeCommand x = False"

text \<open>
  \<open>charModeFollowsChunks m s\<close>: starting in mode \<open>m\<close>, every text chunk of length 1
  in \<open>s\<close> is reached with character mode on and every other text chunk with character
  mode off.
\<close>

fun charModeFollowsChunks :: "bool \<Rightarrow> SpeechSequence \<Rightarrow> bool" where
  "charModeFollowsChunks m [] = True"
| "charModeFollowsChunks m (CharacterModeCommand b # s) = charModeFollowsChunks b s"
| "charModeFollowsChunks m (Str t # s) = ((length t = 1) = m \<and> charModeFollowsChunks m s)"
| "charModeFollowsChunks m (x # s) = charModeFollowsChunks m s"

text \<open>
  Every character mode command stands immediately before a text chunk: an enable
  before a chunk of length 1, a disable before a chunk of another length.
\<close>

fun charModeCommandsBeforeChunks :: "SpeechSequence \<Rightarrow> bool" where
  "charModeCommandsBeforeChunks [] = True"
| "charModeCommandsBeforeChunks (CharacterModeCommand b # s) =
     ((case s of Str t # r \<Rightarrow> (length t = 1) = b | _ \<Rightarrow> False) \<and> charModeCommandsBeforeChunks s)"
| "charModeCommandsBeforeChunks (x # s) = charModeCommandsBeforeChunks s"

text \<open>The character mode in force after a sequence that starts in mode \<open>m\<close>.\<close>

fun finalCharMode :: "bool \<Rightarrow> SpeechSequence \<Rightarrow> bool" where
  "finalCharMode m [] = m"
| "finalCharMode m (CharacterModeCommand b # s) = finalCharMode b s"
| "finalCharMode m (x # s) = finalCharMode m s"

text \<open>Whether the last text chunk of a sequence has length 1 (\<open>m\<close> if there is none).\<close>

fun lastChunkIsSingle :: "bool \<Rightarrow> SpeechSequence \<Rightarrow> bool" where
  "lastChunkIsSingle m [] = m"
| "lastChunkIsSingle m (Str t # s) = lastChunkIsSingle (length t = 1) s"
| "lastChunkIsSingle m (x # s) = lastChunkIsSingle m s"

text \<open>
  The weighted length of an indentation: a tab counts 4, any other whitespace
  character 1 (a character that is not whitespace is not part of any run).
\<close>

definition weightedLength :: "pystr \<Rightarrow> nat" where
  "weightedLength s =
     sum_list (map (\<lambda>c. if c = 9 then 4 else if isspace_char c then 1 else 0) s)"

fun isBeepCommand :: "SequenceItemT \<Rightarrow> bool" where
  "isBeepCommand (BeepCommand hz ms) = True"
| "isBeepCommand x = False"

section \<open>Example surroundings\<close>

text \<open>
  A synthesizer and character processing for the examples: the symbols of the space
  and of the tab have names, nothing else is replaced, only the letters A to Z are
  upper case, there are no character descriptions and normalization changes nothing.
\<close>

definition exampleSymbol :: "pystr \<Rightarrow> pystr \<Rightarrow> pystr" where
  "exampleSymbol loc s =
     (if s = [32] then lit ''space'' else if s = [9] then lit ''tab'' else s)"

definition exampleSpellEnv :: spellEnv where
  "exampleSpellEnv =
     \<lparr>synth_language = NoSynth, trustVoiceLanguage = False,
      normalizeLanguage = (\<lambda>l. Some l), getLanguage = lit ''en'',
      autoDialectSwitching = False, shouldMakeLangChangeCommand = False,
      unicodeNormalize = (\<lambda>s. s), splitAtCharacterBoundaries = map (\<lambda>c. [c]),
      getCharacterDescription = (\<lambda>l s. None), processSpeechSymbol = exampleSymbol,
      isupper = (\<lambda>s. s \<noteq> [] \<and> list_all (\<lambda>c. 65 \<le> c \<and> c \<le> 90) s),
      lower = map (\<lambda>c. if 65 \<le> c \<and> c \<le> 90 then c + 32 else c),
      synthSupportsPitchCommand = True, conf_capPitchChange = 30,
      conf_sayCapForCapitals = False, conf_beepForCapitals = False,
      conf_useSpellingFunctionality = True, conf_unicodeNormalization = False,
      conf_reportNormalizedForCharacterNavigation = False\<rparr>"

definition exampleSpellArgs :: spellArgs where
  "exampleSpellArgs =
     \<lparr>useCharacterDescriptions = False, sayCapForCapitals = False, capPitchChange = 30,
      beepForCapitals = False, fallbackToCharIfNoDescription = True,
      unicodeNormalization = False, reportNormalizedForCharacterNavigation = False\<rparr>"

text \<open>
  Two reports of a cell of table 1 in row 2 and column 3; the second report says that
  the cell spans two rows. A third report has the same coordinates in table 7.
\<close>

definition exampleCell :: dict where
  "exampleCell = [''_tableID'' \<mapsto> PInt 1, ''rowNumber'' \<mapsto> PInt 2, ''columnNumber'' \<mapsto> PInt 3]"

definition exampleCellSpanning :: dict where
  "exampleCellSpanning = exampleCell(''rowSpan'' \<mapsto> PInt 2)"

definition exampleCellOtherTable :: dict where
  "exampleCellOtherTable = exampleCell(''_tableID'' \<mapsto> PInt 7)"

text \<open>An object whose description repeats its name.\<close>

definition exampleProperties :: dict where
  "exampleProperties = [''name'' \<mapsto> PStr (lit ''OK''), ''description'' \<mapsto> PStr (lit ''OK'')]"


text \<open>
  The surroundings \<open>env\<close> with another speech for the fields removed from the
  stack: \<open>info.getControlFieldSpeech\<close> answers \<open>x\<close> for the field type
  \<open>end_removedFromControlFieldStack\<close> and is unchanged for every other field type.
\<close>

definition withRemovedFieldSpeech ::
  "(dict \<Rightarrow> dict list \<Rightarrow> formatConfig \<Rightarrow> bool \<Rightarrow> OutputReason \<Rightarrow> error + SpeechSequence)
     \<Rightarrow> textInfoEnv \<Rightarrow> textInfoEnv" where
  "withRemovedFieldSpeech x env =
     env\<lparr>getControlFieldSpeech :=
           (\<lambda>f anc fieldType fc ed r.
              if fieldType = ''end_removedFromControlFieldStack'' then x f anc fc ed r
              else getControlFieldSpeech env f anc fieldType fc ed r)\<rparr>"

text \<open>
  The cached state of a subject as a value: the cached stack, the content of the cached
  attribute dictionary and the cached indentation of the object, if it has a state.
\<close>

definition cachedSnapshot :: "world \<Rightarrow> (dict list \<times> dict \<times> pystr) option" where
  "cachedSnapshot w =
     map_option
       (\<lambda>s. (controlFieldStackCache s, heap w (formatFieldAttributesCache s), indentationCache s))
       (obj_speakTextInfoState w)"

text \<open>
  A text info for the examples. The speech of a control field is its name followed by
  the field type, for the fields that enter or leave the stack; a field with the
  attribute \<open>broken\<close> raises \<open>AttributeError\<close>. Format fields yield no phrases.
\<close>

definition exampleFormatConfig :: formatConfig where
  "exampleFormatConfig =
     \<lparr>reportLineIndentation = OFF, ignoreBlankLinesForRLI = False, reportClickable = False,
      reportSpellingErrors = False, reportSuperscriptsAndSubscripts = False,
      extraDetailKey = False, otherKeys = Map.empty\<rparr>"

definition exampleControlFieldSpeech ::
  "dict \<Rightarrow> dict list \<Rightarrow> string \<Rightarrow> formatConfig \<Rightarrow> bool \<Rightarrow> OutputReason
     \<Rightarrow> error + SpeechSequence" where
  "exampleControlFieldSpeech f anc fieldType fc ed r =
     (if f ''broken'' \<noteq> None then Inl AttributeError
      else if fieldType = ''start_inControlFieldStack'' \<or> fieldType = ''end_inControlFieldStack''
      then Inr []
      else Inr [Str (getText f ''name'' @ lit '' '' @ lit fieldType)])"

definition exampleTextInfoEnv :: "textItem list \<Rightarrow> textInfoEnv" where
  "exampleTextInfoEnv fetched =
     \<lparr>getTextWithFields = (\<lambda>fc. fetched),
      getControlFieldSpeech = exampleControlFieldSpeech,
      formatFieldPhrases = (\<lambda>attrs attrsCache fc r u ed initialFormat. Inr []),
      getPresentationCategory = (\<lambda>f anc fc r. Some PRESCAT_CONTAINER),
      mathSpeechProvider = False,
      getSpeechForMathMl = (\<lambda>f. Inl NotImplementedError),
      Role_MATH = PInt 101, State_CLICKABLE = 0, CLICKABLE_displayString = lit ''clickable'',
      TextPosition_UNDEFINED = PInt 0,
      conf_documentFormatting = exampleFormatConfig,
      conf_delayedCharacterDescriptions = False,
      speechMode = talk,
      spelling = exampleSpellEnv\<rparr>"

text \<open>
  A subject described before: the cached stack holds a list and a list item, the cached
  format field attributes are empty, and there was no indentation.
\<close>

definition exampleList :: dict where
  "exampleList = [''uniqueID'' \<mapsto> PInt 1, ''name'' \<mapsto> PStr (lit ''list'')]"

definition exampleItem :: dict where
  "exampleItem = [''uniqueID'' \<mapsto> PInt 2, ''name'' \<mapsto> PStr (lit ''item'')]"

definition exampleWorld :: world where
  "exampleWorld =
     \<lparr>heap = (\<lambda>r. Map.empty), nextRef = 1,
      obj_speakTextInfoState =
        Some \<lparr>controlFieldStackCache = [exampleList, exampleItem],
              formatFieldAttributesCache = 0, indentationCache = []\<rparr>,
      callerState = \<lparr>controlFieldStackCache = [], formatFieldAttributesCache = 0,
                      indentationCache = []\<rparr>\<rparr>"

text \<open>
  A position in the list but outside the item, in bold text: the list, a format field
  and the text \<open>x\<close>.
\<close>

definition exampleBold :: dict where
  "exampleBold = [''bold'' \<mapsto> PInt 1]"

definition exampleFetched :: "textItem list" where
  "exampleFetched =
     [FieldCommand ''controlStart'' (Some (ControlField exampleList)),
      FieldCommand ''formatChange'' (Some (FormatField exampleBold)),
      Text (lit ''x''),
      FieldCommand ''controlEnd'' None]"

text \<open>The same position, where the text is followed by a control field that is broken.\<close>

definition exampleFetchedBroken :: "textItem list" where
  "exampleFetchedBroken =
     [FieldCommand ''controlStart'' (Some (ControlField exampleList)),
      FieldCommand ''formatChange'' (Some (FormatField exampleBold)),
      Text (lit ''x''),
      FieldCommand ''controlStart'' (Some (ControlField [''broken'' \<mapsto> PInt 1])),
      Text (lit ''y''),
      FieldCommand ''controlEnd'' None,
      FieldCommand ''controlEnd'' None]"

text \<open>
  The list with another name and the same unique identifier; and speech for a field that
  leaves the stack, as a function of the field and as a method of the text info.
\<close>

definition exampleListRenamed :: dict where
  "exampleListRenamed = [''uniqueID'' \<mapsto> PInt 1, ''name'' \<mapsto> PStr (lit ''renamed'')]"

definition exampleRemovedSpeech :: "dict \<Rightarrow> dict list \<Rightarrow> error + SpeechSequence" where
  "exampleRemovedSpeech f anc = Inr [Str (lit ''out of '' @ getText f ''name'')]"

definition exampleExitSpeech ::
  "dict \<Rightarrow> dict list \<Rightarrow> formatConfig \<Rightarrow> bool \<Rightarrow> OutputReason \<Rightarrow> error + SpeechSequence" where
  "exampleExitSpeech f anc fc ed r = exampleRemovedSpeech f anc"

section \<open>The character-mode pass\<close>

lemma addCharMode_loop_filter:
  "list_all (\<lambda>x. \<not> isCharacterModeCommand x) s \<Longrightarrow>
   filter (\<lambda>x. \<not> isCharacterModeCommand x) (addCharMode_loop m s) = s"
proof (induction m s rule: addCharMode_loop.induct)
  case (1 charMode)
  then show ?case by simp
next
  case (2 charMode t seq)
  then show ?case by simp
qed simp_all

lemma addCharMode_loop_follows:
  "list_all (\<lambda>x. \<not> isCharacterModeCommand x) s \<Longrightarrow>
   charModeFollowsChunks m (addCharMode_loop m s)"
  by (induction m s rule: addCharMode_loop.induct) auto

lemma addCharMode_loop_before:
  "list_all (\<lambda>x. \<not> isCharacterModeCommand x) s \<Longrightarrow>
   charModeCommandsBeforeChunks (addCharMode_loop m s)"
  by (induction m s rule: addCharMode_loop.induct) auto

lemma addCharMode_loop_final:
  "list_all (\<lambda>x. \<not> isCharacterModeCommand x) s \<Longrightarrow>
   finalCharMode m (addCharMode_loop m s) = lastChunkIsSingle m s"
  by (induction m s rule: addCharMode_loop.induct) auto

text \<open>
  Claim C9, amended. In the character-mode pass over a sequence that holds no
  character-mode command, the pass only inserts character-mode commands; every
  command it inserts stands immediately before a text chunk, an enable before a
  chunk of length 1 and a disable before a chunk of another length; every chunk of
  length 1 is reached with character mode on and every other chunk with character
  mode off; and character mode is still on at the end when the last text chunk has
  length 1: a run that reaches the end of the sequence gets no disable command.
\<close>

theorem C9_amended:
  assumes "list_all (\<lambda>x. \<not> isCharacterModeCommand x) s"
  shows "filter (\<lambda>x. \<not> isCharacterModeCommand x) (getSpellingSpeechAddCharMode s) = s
    \<and> charModeCommandsBeforeChunks (getSpellingSpeechAddCharMode s)
    \<and> charModeFollowsChunks False (getSpellingSpeechAddCharMode s)
    \<and> finalCharMode False (getSpellingSpeechAddCharMode s) = lastChunkIsSingle False s"
  unfolding getSpellingSpeechAddCharMode_def
  using assms addCharMode_loop_filter addCharMode_loop_follows addCharMode_loop_before
    addCharMode_loop_final by blast

text \<open>
  Claim C9 as stated fails: spelling the single letter \<open>a\<close> with the spelling
  functionality of the synthesizer enables character mode before the letter and never
  disables it, although the run of length-1 chunks is the last thing in the sequence.
\<close>

text \<open>
  Claim C9, amended, on the sequence for the letters \<open>a\<close>, \<open>bc\<close>, \<open>d\<close>.
\<close>

theorem C9_amended_witness:
  "list_all (\<lambda>x. \<not> isCharacterModeCommand x)
     [Str [97], EndUtteranceCommand, Str [98, 99], EndUtteranceCommand, Str [100]]
   \<and> getSpellingSpeechAddCharMode
         [Str [97], EndUtteranceCommand, Str [98, 99], EndUtteranceCommand, Str [100]]
       = [CharacterModeCommand True, Str [97], EndUtteranceCommand,
          CharacterModeCommand False, Str [98, 99], EndUtteranceCommand,
          CharacterModeCommand True, Str [100]]
   \<and> charModeCommandsBeforeChunks (getSpellingSpeechAddCharMode
         [Str [97], EndUtteranceCommand, Str [98, 99], EndUtteranceCommand, Str [100]])
   \<and> charModeFollowsChunks False (getSpellingSpeechAddCharMode
         [Str [97], EndUtteranceCommand, Str [98, 99], EndUtteranceCommand, Str [100]])
   \<and> finalCharMode False (getSpellingSpeechAddCharMode
         [Str [97], EndUtteranceCommand, Str [98, 99], EndUtteranceCommand, Str [100]])"
proof -
  have h: "list_all (\<lambda>x. \<not> isCharacterModeCommand x)
     [Str [97], EndUtteranceCommand, Str [98, 99], EndUtteranceCommand, Str [100]]"
    by simp
  have e: "getSpellingSpeechAddCharMode
         [Str [97], EndUtteranceCommand, Str [98, 99], EndUtteranceCommand, Str [100]]
       = [CharacterModeCommand True, Str [97], EndUtteranceCommand,
          CharacterModeCommand False, Str [98, 99], EndUtteranceCommand,
          CharacterModeCommand True, Str [100]]"
    by (simp add: getSpellingSpeechAddCharMode_def)
  show ?thesis
    using h e C9_amended [OF h] by simp
qed

lemma example_letter:
  "getSpellingSpeech exampleSpellEnv [97] None False =
     [SuppressUnicodeNormalizationCommand True, CharacterModeCommand True, Str [97],
      EndUtteranceCommand, SuppressUnicodeNormalizationCommand False]"
  by (simp add: getSpellingSpeech_def getSpellingSpeechAddCharMode_def
      getSpellingSpeechWithoutCharMode_def exampleSpellEnv_def getCurrentLanguage_def
      spellingLocale_def isspace_def isspace_char_def rstrip_def spellText_def Let_def
      langRoot_def lit_def LANGS_WITH_CONJUNCT_CHARS_def exampleSymbol_def
      getSpellingCharAddCapNotification_def truthyDesc_def)

text \<open>
  Claim C9 as stated fails: spelling the single letter \<open>a\<close> with the spelling
  functionality of the synthesizer enables character mode before the letter and never
  disables it, although the run of length-1 chunks is the last thing in the sequence.
\<close>

theorem C9_counterexample:
  "getSpellingSpeech exampleSpellEnv [97] None False =
     [SuppressUnicodeNormalizationCommand True, CharacterModeCommand True, Str [97],
      EndUtteranceCommand, SuppressUnicodeNormalizationCommand False]
   \<and> CharacterModeCommand False \<notin> set (getSpellingSpeech exampleSpellEnv [97] None False)"
  by (simp add: example_letter)

section \<open>The selection message\<close>

lemma formatScan_ordinary:
  "c \<noteq> 37 \<Longrightarrow>
   formatScan (c # r) a u = (case formatScan r a u of Inl e \<Rightarrow> Inl e | Inr x \<Rightarrow> Inr (c # x))"
  by (cases r) simp_all

lemma formatScan_no_conversion: "37 \<notin> set q \<Longrightarrow> formatScan q a True = Inr q"
  by (induction q) (simp_all add: formatScan_ordinary)

lemma formatScan_one_s:
  "37 \<notin> set p \<Longrightarrow> 37 \<notin> set q \<Longrightarrow>
   formatScan (p @ 37 # 115 # q) (AStr t) False = Inr (p @ t @ q)"
  by (induction p) (simp_all add: formatScan_ordinary formatScan_no_conversion)

lemma percent_one_s:
  "37 \<notin> set p \<Longrightarrow> 37 \<notin> set q \<Longrightarrow> percent (p @ lit ''%s'' @ q) (AStr t) = Inr (p @ t @ q)"
  by (simp add: percent_def lit_def formatScan_one_s)

lemma percent_characters:
  "percent (lit ''%d characters'') (AInt n) = Inr (str_int n @ lit '' characters'')"
  by (simp add: percent_def lit_def)

text \<open>
  Claim C6, amended. For a message with one \<open>%s\<close> and no other percent sign: when
  the text is shorter than the threshold of 512 characters, the selection message is
  the message with the text itself; when the length of the text is the threshold or
  more, the selection message is the message with the number of characters in place
  of the text.
\<close>

theorem C6_amended:
  assumes "37 \<notin> set p" and "37 \<notin> set q"
  shows "(length t < MAX_LENGTH_FOR_SELECTION_REPORTING \<longrightarrow>
            getSelectionMessageSpeech (p @ lit ''%s'' @ q) t
              = Inr (getSpeakMessageSpeech (Some (p @ t @ q))))
       \<and> (MAX_LENGTH_FOR_SELECTION_REPORTING \<le> length t \<longrightarrow>
            getSelectionMessageSpeech (p @ lit ''%s'' @ q) t
              = Inr (getSpeakMessageSpeech
                       (Some (p @ (str_int (int (length t)) @ lit '' characters'') @ q))))"
proof -
  have "int (length t) \<noteq> 1" if "MAX_LENGTH_FOR_SELECTION_REPORTING \<le> length t"
    using that by (simp add: MAX_LENGTH_FOR_SELECTION_REPORTING_def)
  then show ?thesis
    using assms
    by (simp add: getSelectionMessageSpeech_def percent_one_s percent_characters
        ngettext_def Let_def del: decimal.simps)
qed

text \<open>
  Claim C6, amended, on the message \<open>%s selected\<close> and texts of 511 and of 512
  letters.
\<close>

theorem C6_amended_witness:
  "37 \<notin> set ([]::pystr) \<and> 37 \<notin> set (lit '' selected'')
   \<and> length (replicate 511 (97::nat)) < MAX_LENGTH_FOR_SELECTION_REPORTING
   \<and> getSelectionMessageSpeech ([] @ lit ''%s'' @ lit '' selected'') (replicate 511 97)
       = Inr [Str (replicate 511 97 @ lit '' selected'')]
   \<and> MAX_LENGTH_FOR_SELECTION_REPORTING \<le> length (replicate 512 (97::nat))
   \<and> getSelectionMessageSpeech ([] @ lit ''%s'' @ lit '' selected'') (replicate 512 97)
       = Inr [Str (lit ''512 characters selected'')]"
proof -
  have a: "37 \<notin> set ([]::pystr)" by simp
  have b: "37 \<notin> set (lit '' selected'')" by (simp add: lit_def)
  have c: "length (replicate 511 (97::nat)) < MAX_LENGTH_FOR_SELECTION_REPORTING"
    by (simp add: MAX_LENGTH_FOR_SELECTION_REPORTING_def)
  have d: "MAX_LENGTH_FOR_SELECTION_REPORTING \<le> length (replicate 512 (97::nat))"
    by (simp add: MAX_LENGTH_FOR_SELECTION_REPORTING_def)
  have e: "getSelectionMessageSpeech ([] @ lit ''%s'' @ lit '' selected'') (replicate 511 97)
       = Inr [Str (replicate 511 97 @ lit '' selected'')]"
    using c C6_amended [OF a b, of "replicate 511 97"]
    by (simp add: getSpeakMessageSpeech_def isBlank_def BLANK_CHUNK_CHARS_def)
  have f: "getSelectionMessageSpeech ([] @ lit ''%s'' @ lit '' selected'') (replicate 512 97)
       = Inr [Str (lit ''512 characters selected'')]"
    using d C6_amended [OF a b, of "replicate 512 97"]
    by (simp add: getSpeakMessageSpeech_def isBlank_def BLANK_CHUNK_CHARS_def lit_def
        str_int_def)
  show ?thesis
    using a b c d e f by blast
qed

text \<open>
  Claim C6 as stated fails: a text whose length is exactly the threshold is not
  spoken literally, its number of characters is reported.
\<close>

theorem C6_counterexample:
  "length (replicate 512 (97::nat)) = MAX_LENGTH_FOR_SELECTION_REPORTING
   \<and> getSelectionMessageSpeech (lit ''%s selected'') (replicate 512 97)
       = Inr [Str (lit ''512 characters selected'')]"
  by (simp add: MAX_LENGTH_FOR_SELECTION_REPORTING_def getSelectionMessageSpeech_def
      percent_def lit_def ngettext_def str_int_def getSpeakMessageSpeech_def isBlank_def
      BLANK_CHUNK_CHARS_def)

section \<open>Spelling an empty or blank string\<close>

lemma spellItems_ends:
  "spellItems env args loc hc n nz items = []
   \<or> last (spellItems env args loc hc n nz items) = EndUtteranceCommand"
  by (induction items) (auto simp: Let_def split: prod.splits)

lemma spellText_ends:
  "spellText env args loc t = [] \<or> last (spellText env args loc t) = EndUtteranceCommand"
  unfolding spellText_def Let_def by (rule spellItems_ends)

text \<open>
  Claim C5, amended. For the empty string the spelling-sequence builder yields exactly
  one \<open>blank\<close> phrase and nothing else. A string that is not empty never yields the
  lone \<open>blank\<close> phrase: its result is empty or ends with the end-of-utterance command
  of its last unit; and a string of whitespace only is not trimmed but spelled as it is.
\<close>

theorem C5_amended:
  "getSpellingSpeechWithoutCharMode env args [] loc = [Str (lit ''blank'')]
   \<and> (t \<noteq> [] \<longrightarrow>
        (getSpellingSpeechWithoutCharMode env args t loc = []
         \<or> last (getSpellingSpeechWithoutCharMode env args t loc) = EndUtteranceCommand))
   \<and> (isspace t \<longrightarrow>
        getSpellingSpeechWithoutCharMode env args t loc
          = spellText env args (spellingLocale env loc) t)"
  using spellText_ends [of env args "spellingLocale env loc"]
  by (auto simp: getSpellingSpeechWithoutCharMode_def isspace_def)

lemma example_space:
  "getSpellingSpeechWithoutCharMode exampleSpellEnv exampleSpellArgs [32] None
     = [Str (lit ''space''), EndUtteranceCommand]"
  by (simp add: getSpellingSpeechWithoutCharMode_def exampleSpellEnv_def exampleSpellArgs_def
      spellingLocale_def getCurrentLanguage_def
      isspace_def isspace_char_def spellText_def Let_def langRoot_def lit_def
      LANGS_WITH_CONJUNCT_CHARS_def exampleSymbol_def
      getSpellingCharAddCapNotification_def truthyDesc_def)

text \<open>Claim C5, amended, on the empty string and on a single space.\<close>

theorem C5_amended_witness:
  "getSpellingSpeechWithoutCharMode exampleSpellEnv exampleSpellArgs [] None
     = [Str (lit ''blank'')]
   \<and> [32] \<noteq> ([]::pystr)
   \<and> last (getSpellingSpeechWithoutCharMode exampleSpellEnv exampleSpellArgs [32] None)
       = EndUtteranceCommand
   \<and> isspace [32]
   \<and> getSpellingSpeechWithoutCharMode exampleSpellEnv exampleSpellArgs [32] None
       = spellText exampleSpellEnv exampleSpellArgs (spellingLocale exampleSpellEnv None) [32]"
proof -
  have ws: "isspace [32]" by (simp add: isspace_def isspace_char_def)
  have ne: "[32] \<noteq> ([]::pystr)" by simp
  note inst = C5_amended [of exampleSpellEnv exampleSpellArgs None "[32]"]
  from inst have blank: "getSpellingSpeechWithoutCharMode exampleSpellEnv exampleSpellArgs [] None
     = [Str (lit ''blank'')]" by blast
  from inst ws have same: "getSpellingSpeechWithoutCharMode exampleSpellEnv exampleSpellArgs [32] None
       = spellText exampleSpellEnv exampleSpellArgs (spellingLocale exampleSpellEnv None) [32]"
    by blast
  have fin: "last (getSpellingSpeechWithoutCharMode exampleSpellEnv exampleSpellArgs [32] None)
       = EndUtteranceCommand"
    by (simp add: example_space)
  from blank ne fin ws same show ?thesis by blast
qed

text \<open>
  Claim C5 as stated fails: a single space is whitespace only, and it is spelled as
  the symbol of the space followed by the end-of-utterance command, not as \<open>blank\<close>.
\<close>

theorem C5_counterexample:
  "isspace [32]
   \<and> getSpellingSpeechWithoutCharMode exampleSpellEnv exampleSpellArgs [32] None
       = [Str (lit ''space''), EndUtteranceCommand]"
  by (simp add: example_space isspace_def isspace_char_def)

section \<open>Indentation\<close>

lemma weightedLength_same:
  "\<forall>x\<in>set xs. x = c \<Longrightarrow> isspace_char c \<Longrightarrow>
   weightedLength xs = (if c = 9 then length xs * 4 else length xs)"
  by (induction xs) (auto simp: weightedLength_def)

lemma weightedLength_append: "weightedLength (xs @ ys) = weightedLength xs + weightedLength ys"
  by (simp add: weightedLength_def)

lemma weightedLength_Cons:
  "weightedLength (c # cs) = (if c = 9 then 4 else if isspace_char c then 1 else 0) + weightedLength cs"
  by (simp add: weightedLength_def)

lemma quarterTones_weightedLength:
  "sum_list (map indentationRunTones (indentationRuns s)) = weightedLength s"
proof (induction s rule: indentationRuns.induct)
  case 1
  show ?case by (simp add: weightedLength_def)
next
  case (2 c cs)
  show ?case
  proof (cases "isspace_char c")
    case True
    have split: "weightedLength cs
        = weightedLength (takeWhile (\<lambda>d. d = c) cs) + weightedLength (dropWhile (\<lambda>d. d = c) cs)"
      by (metis takeWhile_dropWhile_id weightedLength_append)
    have run: "weightedLength (takeWhile (\<lambda>d. d = c) cs)
        = (if c = 9 then length (takeWhile (\<lambda>d. d = c) cs) * 4
           else length (takeWhile (\<lambda>d. d = c) cs))"
      by (rule weightedLength_same) (auto dest: set_takeWhileD simp: True)
    show ?thesis
      using True 2 split run
      by (simp add: indentationRunTones_def weightedLength_Cons)
  next
    case False
    then have "c \<noteq> 9" by (auto simp: isspace_char_def)
    with False 2 show ?thesis by (simp add: weightedLength_Cons)
  qed
qed

lemma weightedLength_nbsp:
  "weightedLength (map (\<lambda>c. if c = 160 then 32 else c) s) = weightedLength s"
  by (induction s) (auto simp: weightedLength_Cons isspace_char_def weightedLength_def)

text \<open>
  Claim C4, amended. With tones in force (the mode is tones or speech and tones, and the
  speech mode is talk) and an indentation that is not empty: when the weighted length
  is at most the ceiling of 72, the result is one beep of the base frequency times 2 to
  the power of the weighted length over 24, followed by the speech form only where the
  mode is speech and tones (so the tone alone in the tones mode); when the weighted
  length exceeds 72, the result is the speech form, with no beep, in both modes.
\<close>

theorem C4_amended:
  assumes "m \<in> {TONES, SPEECH_AND_TONES}" and "ind \<noteq> []"
  shows "(weightedLength ind \<le> IDT_MAX_SPACES \<longrightarrow>
            getIndentationSpeech symb lang talk ind m
              = BeepCommand (IDT_BASE_FREQUENCY * 2 powr (real (weightedLength ind) / 24))
                  IDT_TONE_DURATION
                # (if m = SPEECH_AND_TONES then getIndentationSpeech symb lang talk ind SPEECH
                   else []))
       \<and> (IDT_MAX_SPACES < weightedLength ind \<longrightarrow>
            getIndentationSpeech symb lang talk ind m = getIndentationSpeech symb lang talk ind SPEECH
            \<and> list_all isStr (getIndentationSpeech symb lang talk ind m))"
  using assms
  by (auto simp: getIndentationSpeech_def Let_def quarterTones_weightedLength
      weightedLength_nbsp list_all_iff)

text \<open>
  Claim C10. When the speech mode is not talk, no beep is emitted for any indentation and
  any mode: the tones mode yields nothing, and the speech and tones mode yields what the
  speech mode yields.
\<close>

theorem C10:
  assumes "sm \<noteq> talk"
  shows "getIndentationSpeech symb lang sm ind TONES = []
       \<and> getIndentationSpeech symb lang sm ind SPEECH_AND_TONES
           = getIndentationSpeech symb lang sm ind SPEECH
       \<and> list_all (\<lambda>x. \<not> isBeepCommand x) (getIndentationSpeech symb lang sm ind m)"
  using assms
  by (auto simp: getIndentationSpeech_def Let_def list_all_iff)

lemma wl4: "weightedLength (replicate 4 32) = 4"
  by (simp add: weightedLength_def isspace_char_def sum_list_replicate)

lemma wl18: "weightedLength (replicate 18 9) = 72"
  by (simp add: weightedLength_def sum_list_replicate)

lemma wl19: "weightedLength (replicate 19 9) = 76"
  by (simp add: weightedLength_def sum_list_replicate)

lemma runs_same:
  "isspace_char c \<Longrightarrow> indentationRuns (replicate (Suc n) c) = [replicate (Suc n) c]"
  by simp

lemma speech19:
  "getIndentationSpeech exampleSymbol (lit ''en'') talk (replicate 19 9) SPEECH
     = [Str (lit ''19 tab'')]"
proof -
  have r: "indentationRuns (replicate 19 9) = [replicate 19 9]"
    using runs_same [of 9 18] by (simp add: isspace_char_def)
  have m: "map (\<lambda>c. if c = 160 then 32 else c) (replicate 19 (9::nat)) = replicate 19 9"
    by simp
  show ?thesis
    unfolding getIndentationSpeech_def Let_def m r
    by (simp add: indentationRunText_def exampleSymbol_def lit_def str_int_def Let_def)
qed

text \<open>Claim C4, amended, on 4 spaces, 18 tabs and 19 tabs in the tones mode.\<close>

theorem C4_amended_witness:
  "TONES \<in> {TONES, SPEECH_AND_TONES} \<and> replicate 4 (32::nat) \<noteq> []
   \<and> weightedLength (replicate 4 32) \<le> IDT_MAX_SPACES
   \<and> getIndentationSpeech exampleSymbol (lit ''en'') talk (replicate 4 32) TONES
       = [BeepCommand (IDT_BASE_FREQUENCY * 2 powr (4 / 24)) IDT_TONE_DURATION]
   \<and> replicate 18 (9::nat) \<noteq> []
   \<and> weightedLength (replicate 18 9) = 72 \<and> IDT_MAX_SPACES = 72
   \<and> getIndentationSpeech exampleSymbol (lit ''en'') talk (replicate 18 9) TONES
       = [BeepCommand (IDT_BASE_FREQUENCY * 2 powr (72 / 24)) IDT_TONE_DURATION]
   \<and> replicate 19 (9::nat) \<noteq> []
   \<and> weightedLength (replicate 19 9) = 76
   \<and> getIndentationSpeech exampleSymbol (lit ''en'') talk (replicate 19 9) TONES
       = [Str (lit ''19 tab'')]"
proof -
  have t: "TONES \<in> {TONES, SPEECH_AND_TONES}" by simp
  have n4: "replicate 4 (32::nat) \<noteq> []" and n18: "replicate 18 (9::nat) \<noteq> []"
    and n19: "replicate 19 (9::nat) \<noteq> []" by simp_all
  have a: "getIndentationSpeech exampleSymbol (lit ''en'') talk (replicate 4 32) TONES
       = [BeepCommand (IDT_BASE_FREQUENCY * 2 powr (4 / 24)) IDT_TONE_DURATION]"
    using C4_amended [OF t n4, of exampleSymbol "lit ''en''"]
    by (simp add: wl4 IDT_MAX_SPACES_def)
  have b: "getIndentationSpeech exampleSymbol (lit ''en'') talk (replicate 18 9) TONES
       = [BeepCommand (IDT_BASE_FREQUENCY * 2 powr (72 / 24)) IDT_TONE_DURATION]"
    using C4_amended [OF t n18, of exampleSymbol "lit ''en''"]
    by (simp add: wl18 IDT_MAX_SPACES_def)
  have c: "getIndentationSpeech exampleSymbol (lit ''en'') talk (replicate 19 9) TONES
       = [Str (lit ''19 tab'')]"
    using C4_amended [OF t n19, of exampleSymbol "lit ''en''"]
    by (simp add: wl19 IDT_MAX_SPACES_def speech19)
  show ?thesis
    using t n4 n18 n19 a b c by (simp add: wl4 wl18 wl19 IDT_MAX_SPACES_def)
qed

lemma speech18:
  "getIndentationSpeech exampleSymbol (lit ''en'') talk (replicate 18 9) SPEECH
     = [Str (lit ''18 tab'')]"
proof -
  have r: "indentationRuns (replicate 18 9) = [replicate 18 9]"
    using runs_same [of 9 17] by (simp add: isspace_char_def)
  have m: "map (\<lambda>c. if c = 160 then 32 else c) (replicate 18 (9::nat)) = replicate 18 9"
    by simp
  show ?thesis
    unfolding getIndentationSpeech_def Let_def m r
    by (simp add: indentationRunText_def exampleSymbol_def lit_def str_int_def Let_def)
qed

text \<open>
  Claim C4 as stated fails: with tones in force in the speech and tones mode, 18 tabs
  (weighted length 72) produce the beep and the spoken form, not the tone only.
\<close>

theorem C4_counterexample:
  "weightedLength (replicate 18 9) = 72
   \<and> getIndentationSpeech exampleSymbol (lit ''en'') talk (replicate 18 9) SPEECH_AND_TONES
       = [BeepCommand (IDT_BASE_FREQUENCY * 2 powr (72 / 24)) IDT_TONE_DURATION,
          Str (lit ''18 tab'')]"
proof -
  have r: "indentationRuns (replicate 18 9) = [replicate 18 9]"
    using runs_same [of 9 17] by (simp add: isspace_char_def)
  have m: "map (\<lambda>c. if c = 160 then 32 else c) (replicate 18 (9::nat)) = replicate 18 9"
    by simp
  have "getIndentationSpeech exampleSymbol (lit ''en'') talk (replicate 18 9) SPEECH_AND_TONES
       = [BeepCommand (IDT_BASE_FREQUENCY * 2 powr (72 / 24)) IDT_TONE_DURATION,
          Str (lit ''18 tab'')]"
    unfolding getIndentationSpeech_def Let_def m r
    by (simp add: indentationRunText_def indentationRunTones_def exampleSymbol_def lit_def
        str_int_def Let_def IDT_MAX_SPACES_def)
  then show ?thesis by (simp add: wl18)
qed

text \<open>Claim C10 on 4 spaces in the speech mode beeps.\<close>

theorem C10_witness:
  "beeps \<noteq> talk
   \<and> getIndentationSpeech exampleSymbol (lit ''en'') beeps (replicate 4 32) TONES = []
   \<and> getIndentationSpeech exampleSymbol (lit ''en'') beeps (replicate 4 32) SPEECH_AND_TONES
       = getIndentationSpeech exampleSymbol (lit ''en'') beeps (replicate 4 32) SPEECH
   \<and> list_all (\<lambda>x. \<not> isBeepCommand x)
       (getIndentationSpeech exampleSymbol (lit ''en'') beeps (replicate 4 32) SPEECH_AND_TONES)"
proof -
  have h: "beeps \<noteq> talk" by simp
  show ?thesis
    using h C10 [OF h, of exampleSymbol "lit ''en''" "replicate 4 32" SPEECH_AND_TONES]
    by blast
qed

section \<open>Table cells\<close>

lemma tableCellState_oldTableID:
  "truthyNum (getInt pv ''_tableID'') \<Longrightarrow>
   oldTableID (tableCellState st pv) = getInt pv ''_tableID''"
  by (auto simp: tableCellState_def Let_def sameTable_def)

lemma tableCellState_oldRow:
  "truthyNum (getInt pv ''rowNumber'') \<Longrightarrow>
   oldRowNumber (tableCellState st pv) = getInt pv ''rowNumber''
   \<and> oldRowSpan (tableCellState st pv) = Some (spanOf pv ''rowSpan'')"
  by (auto simp: tableCellState_def Let_def rowChanged_def)

lemma table_state_cases:
  "snd (getPropertiesSpeech_table st pv)
     = (let inCell = (getText pv ''cellCoordsText'' \<noteq> [] \<or> truthyNum (getInt pv ''rowNumber'')
                      \<or> truthyNum (getInt pv ''columnNumber''));
            st' = (if inCell then tableCellState st pv else st)
        in if rowColSpanSpeech pv \<noteq> Inl TypeError \<and> inCell
              \<and> (countOf pv ''rowCount'' \<noteq> 0 \<or> countOf pv ''columnCount'' \<noteq> 0)
           then st'\<lparr>oldTableID := None\<rparr>
           else if (\<not> inCell) \<and> (countOf pv ''rowCount'' \<noteq> 0 \<or> countOf pv ''columnCount'' \<noteq> 0)
           then st'\<lparr>oldTableID := None\<rparr>
           else st')"
  by (auto simp: getPropertiesSpeech_table_def Let_def rowColSpanSpeech_def
      split: sum.splits option.splits prod.splits)

lemma table_state_row:
  assumes "truthyNum (getInt pv ''rowNumber'')"
  shows "oldRowNumber (snd (getPropertiesSpeech_table st pv)) = getInt pv ''rowNumber''"
    and "oldRowSpan (snd (getPropertiesSpeech_table st pv)) = Some (spanOf pv ''rowSpan'')"
  using assms tableCellState_oldRow [of pv st]
  by (auto simp: table_state_cases Let_def)

lemma table_state_id:
  assumes "truthyNum (getInt pv ''_tableID'')"
    and "getText pv ''cellCoordsText'' \<noteq> [] \<or> truthyNum (getInt pv ''rowNumber'')
         \<or> truthyNum (getInt pv ''columnNumber'')"
  shows "oldTableID (snd (getPropertiesSpeech_table st pv)) = getInt pv ''_tableID''
       \<or> oldTableID (snd (getPropertiesSpeech_table st pv)) = None"
  using assms tableCellState_oldTableID [of pv st]
  by (auto simp: table_state_cases Let_def)

lemma table_state_id_kept:
  assumes "truthyNum (getInt pv ''_tableID'')"
    and "getText pv ''cellCoordsText'' \<noteq> [] \<or> truthyNum (getInt pv ''rowNumber'')
         \<or> truthyNum (getInt pv ''columnNumber'')"
    and "countOf pv ''rowCount'' = 0" and "countOf pv ''columnCount'' = 0"
  shows "oldTableID (snd (getPropertiesSpeech_table st pv)) = getInt pv ''_tableID''"
  using assms tableCellState_oldTableID [of pv st]
  by (auto simp: table_state_cases Let_def)

text \<open>
  Claim C1, amended. For two consecutive table-cell property reports
  (\<open>getPropertiesSpeech\<close>), the first with a table identifier: if the second report
  carries the same table identifier, the same row number and the same row span as the
  first, and the first carried no row or column count, no row phrase is emitted for the
  second report; and if the second report carries a different table identifier, its row
  and its column are announced again (header text, number and span as configured) even
  when the numbers are equal to those of the first report.
\<close>

theorem C1_amended:
  assumes ident: "truthyNum (getInt pv1 ''_tableID'')"
    and cell: "getText pv1 ''cellCoordsText'' \<noteq> [] \<or> truthyNum (getInt pv1 ''rowNumber'')
         \<or> truthyNum (getInt pv1 ''columnNumber'')"
  shows "(getInt pv2 ''_tableID'' = getInt pv1 ''_tableID''
          \<and> getInt pv2 ''rowNumber'' = getInt pv1 ''rowNumber''
          \<and> spanOf pv2 ''rowSpan'' = spanOf pv1 ''rowSpan''
          \<and> countOf pv1 ''rowCount'' = 0 \<and> countOf pv1 ''columnCount'' = 0
          \<longrightarrow> rowPhrase (snd (getPropertiesSpeech_table st pv1)) pv2 = [])
       \<and> (getInt pv2 ''_tableID'' \<noteq> getInt pv1 ''_tableID''
          \<longrightarrow> (truthyNum (getInt pv2 ''rowNumber'')
                 \<longrightarrow> rowPhrase (snd (getPropertiesSpeech_table st pv1)) pv2 = rowSpeech pv2)
              \<and> (truthyNum (getInt pv2 ''columnNumber'')
                 \<longrightarrow> columnPhrase (snd (getPropertiesSpeech_table st pv1)) pv2
                       = columnSpeech pv2))"
proof (intro conjI impI)
  assume same: "getInt pv2 ''_tableID'' = getInt pv1 ''_tableID''
          \<and> getInt pv2 ''rowNumber'' = getInt pv1 ''rowNumber''
          \<and> spanOf pv2 ''rowSpan'' = spanOf pv1 ''rowSpan''
          \<and> countOf pv1 ''rowCount'' = 0 \<and> countOf pv1 ''columnCount'' = 0"
  show "rowPhrase (snd (getPropertiesSpeech_table st pv1)) pv2 = []"
  proof (cases "truthyNum (getInt pv1 ''rowNumber'')")
    case True
    have "oldTableID (snd (getPropertiesSpeech_table st pv1)) = getInt pv1 ''_tableID''"
      using table_state_id_kept [OF ident cell] same by simp
    moreover note table_state_row [OF True, of st]
    ultimately show ?thesis
      using same ident by (simp add: rowPhrase_def rowChanged_def sameTable_def)
  next
    case False
    with same show ?thesis by (simp add: rowPhrase_def rowChanged_def)
  qed
next
  assume other: "getInt pv2 ''_tableID'' \<noteq> getInt pv1 ''_tableID''"
  have notSame: "\<not> sameTable (snd (getPropertiesSpeech_table st pv1)) pv2"
    using table_state_id [OF ident cell, of st] other
    by (auto simp: sameTable_def truthyNum_def)
  { assume "truthyNum (getInt pv2 ''rowNumber'')"
    with notSame show "rowPhrase (snd (getPropertiesSpeech_table st pv1)) pv2 = rowSpeech pv2"
      by (simp add: rowPhrase_def rowChanged_def) }
  { assume "truthyNum (getInt pv2 ''columnNumber'')"
    with notSame
    show "columnPhrase (snd (getPropertiesSpeech_table st pv1)) pv2 = columnSpeech pv2"
      by (simp add: columnPhrase_def columnChanged_def) }
qed

lemma exampleCell_reads:
  "getInt exampleCell ''_tableID'' = Some 1" "getInt exampleCell ''rowNumber'' = Some 2"
  "getInt exampleCell ''columnNumber'' = Some 3" "getText exampleCell ''cellCoordsText'' = []"
  "spanOf exampleCell ''rowSpan'' = 1" "spanOf exampleCell ''columnSpan'' = 1"
  "countOf exampleCell ''rowCount'' = 0" "countOf exampleCell ''columnCount'' = 0"
  "getText exampleCell ''rowHeaderText'' = []" "getText exampleCell ''columnHeaderText'' = []"
  "includeTableCellCoords exampleCell"
  by (simp_all add: exampleCell_def getInt_def getText_def spanOf_def countOf_def
      includeTableCellCoords_def)

lemma exampleCellSpanning_reads:
  "getInt exampleCellSpanning ''_tableID'' = Some 1"
  "getInt exampleCellSpanning ''rowNumber'' = Some 2"
  "getInt exampleCellSpanning ''columnNumber'' = Some 3"
  "getText exampleCellSpanning ''cellCoordsText'' = []"
  "spanOf exampleCellSpanning ''rowSpan'' = 2" "spanOf exampleCellSpanning ''columnSpan'' = 1"
  "countOf exampleCellSpanning ''rowCount'' = 0" "countOf exampleCellSpanning ''columnCount'' = 0"
  "getText exampleCellSpanning ''rowHeaderText'' = []"
  "getText exampleCellSpanning ''columnHeaderText'' = []"
  "includeTableCellCoords exampleCellSpanning"
  by (simp_all add: exampleCellSpanning_def exampleCell_def getInt_def getText_def spanOf_def
      countOf_def includeTableCellCoords_def)

lemma exampleCellOtherTable_reads:
  "getInt exampleCellOtherTable ''_tableID'' = Some 7"
  "getInt exampleCellOtherTable ''rowNumber'' = Some 2"
  "getInt exampleCellOtherTable ''columnNumber'' = Some 3"
  "getText exampleCellOtherTable ''cellCoordsText'' = []"
  "spanOf exampleCellOtherTable ''rowSpan'' = 1" "spanOf exampleCellOtherTable ''columnSpan'' = 1"
  "countOf exampleCellOtherTable ''rowCount'' = 0"
  "countOf exampleCellOtherTable ''columnCount'' = 0"
  "getText exampleCellOtherTable ''rowHeaderText'' = []"
  "getText exampleCellOtherTable ''columnHeaderText'' = []"
  "includeTableCellCoords exampleCellOtherTable"
  by (simp_all add: exampleCellOtherTable_def exampleCell_def getInt_def getText_def spanOf_def
      countOf_def includeTableCellCoords_def)

lemma example_first_report:
  "getPropertiesSpeech_table initialSpeechState exampleCell
     = (Inr [Str (lit ''row 2''), Str (lit ''column 3'')],
        \<lparr>oldTreeLevel = None, oldTableID = Some 1, oldRowNumber = Some 2, oldRowSpan = Some 1,
         oldColumnNumber = Some 3, oldColumnSpan = Some 1\<rparr>)"
  by (simp add: getPropertiesSpeech_table_def Let_def exampleCell_reads truthyNum_def
      tableCellState_def sameTable_def rowChanged_def columnChanged_def initialSpeechState_def
      rowColSpanSpeech_def rowPhrase_def columnPhrase_def rowSpeech_def columnSpeech_def
      rowAndColumnCountText_def lit_def str_int_def)

text \<open>
  Claim C1, amended, on the example cell: the same report again has no row phrase, the
  report of the same coordinates in another table announces row and column again.
\<close>

theorem C1_amended_witness:
  "truthyNum (getInt exampleCell ''_tableID'')
   \<and> truthyNum (getInt exampleCell ''rowNumber'')
   \<and> rowPhrase (snd (getPropertiesSpeech_table initialSpeechState exampleCell)) exampleCell = []
   \<and> getInt exampleCellOtherTable ''_tableID'' \<noteq> getInt exampleCell ''_tableID''
   \<and> getInt exampleCellOtherTable ''rowNumber'' = getInt exampleCell ''rowNumber''
   \<and> getInt exampleCellOtherTable ''columnNumber'' = getInt exampleCell ''columnNumber''
   \<and> rowPhrase (snd (getPropertiesSpeech_table initialSpeechState exampleCell))
       exampleCellOtherTable = [Str (lit ''row 2'')]
   \<and> columnPhrase (snd (getPropertiesSpeech_table initialSpeechState exampleCell))
       exampleCellOtherTable = [Str (lit ''column 3'')]"
proof -
  have i: "truthyNum (getInt exampleCell ''_tableID'')"
    by (simp add: exampleCell_reads truthyNum_def)
  have r: "truthyNum (getInt exampleCell ''rowNumber'')"
    by (simp add: exampleCell_reads truthyNum_def)
  have c: "getText exampleCell ''cellCoordsText'' \<noteq> [] \<or> truthyNum (getInt exampleCell ''rowNumber'')
         \<or> truthyNum (getInt exampleCell ''columnNumber'')"
    using r by simp
  have rs: "rowSpeech exampleCellOtherTable = [Str (lit ''row 2'')]"
    by (simp add: rowSpeech_def exampleCellOtherTable_reads Let_def lit_def str_int_def)
  have cs: "columnSpeech exampleCellOtherTable = [Str (lit ''column 3'')]"
    by (simp add: columnSpeech_def exampleCellOtherTable_reads Let_def lit_def str_int_def)
  show ?thesis
    using i r rs cs
      C1_amended [OF i c, of exampleCell initialSpeechState]
      C1_amended [OF i c, of exampleCellOtherTable initialSpeechState]
    by (simp add: exampleCell_reads exampleCellOtherTable_reads truthyNum_def)
qed

text \<open>
  Claim C1 as stated fails: the second report carries the same table identifier and the
  same row number as the first, and the row phrase is emitted again, because the row
  span of the second report differs.
\<close>

theorem C1_counterexample:
  "getInt exampleCellSpanning ''_tableID'' = getInt exampleCell ''_tableID''
   \<and> getInt exampleCellSpanning ''rowNumber'' = getInt exampleCell ''rowNumber''
   \<and> fst (getPropertiesSpeech_table initialSpeechState exampleCell)
       = Inr [Str (lit ''row 2''), Str (lit ''column 3'')]
   \<and> fst (getPropertiesSpeech_table
            (snd (getPropertiesSpeech_table initialSpeechState exampleCell))
            exampleCellSpanning)
       = Inr [Str (lit ''row 2''), Str (lit ''through 3'')]"
proof -
  have second: "fst (getPropertiesSpeech_table
       \<lparr>oldTreeLevel = None, oldTableID = Some 1, oldRowNumber = Some 2, oldRowSpan = Some 1,
        oldColumnNumber = Some 3, oldColumnSpan = Some 1\<rparr> exampleCellSpanning)
     = Inr [Str (lit ''row 2''), Str (lit ''through 3'')]"
    by (simp add: getPropertiesSpeech_table_def Let_def exampleCellSpanning_reads truthyNum_def
        sameTable_def rowChanged_def columnChanged_def
        rowColSpanSpeech_def rowPhrase_def columnPhrase_def rowSpeech_def
        rowAndColumnCountText_def lit_def str_int_def)
  show ?thesis
    unfolding example_first_report fst_conv snd_conv
    using second by (simp add: exampleCell_reads exampleCellSpanning_reads)
qed

text \<open>
  The table information of a format field (\<open>getTableInfoSpeech\<close>) compares the row
  and column numbers with the old ones whatever the table: here the cell in row 2 and
  column 3 of table 7 follows the cell in row 2 and column 3 of table 1, and only the
  new table is announced.
\<close>

lemma getTableInfoSpeech_other_table_same_numbers:
  "getTableInfoSpeech
     (Some [''table-id'' \<mapsto> 7, ''row-number'' \<mapsto> 2, ''column-number'' \<mapsto> 3,
            ''row-count'' \<mapsto> 4, ''column-count'' \<mapsto> 5])
     (Some [''table-id'' \<mapsto> 1, ''row-number'' \<mapsto> 2, ''column-number'' \<mapsto> 3,
            ''row-count'' \<mapsto> 4, ''column-count'' \<mapsto> 5])
   = [Str (lit ''table with 5 columns and 4 rows'')]"
  by (simp add: getTableInfoSpeech_def Let_def getOr0_def columnCountText_def rowCountText_def
      lit_def str_int_def)

section \<open>The description that repeats the name\<close>

lemma copyPositionInfo_description:
  "getText (copyPositionInfo allowed p k pv) ''description'' = getText pv ''description''"
  by (simp add: copyPositionInfo_def getText_def)

lemma addPositionInfo_description:
  "getText (addPositionInfo allowed pos pv) ''description'' = getText pv ''description''"
  by (simp add: addPositionInfo_def copyPositionInfo_description split: option.splits)

lemma copyPositionInfo_description_key:
  "copyPositionInfo allowed p k pv ''description'' = pv ''description''"
  by (simp add: copyPositionInfo_def)

lemma addPositionInfo_description_key:
  "addPositionInfo allowed pos pv ''description'' = pv ''description''"
  by (simp add: addPositionInfo_def copyPositionInfo_description_key split: option.splits)

lemma dropDuplicateDescription_silent:
  assumes "pyget pv ''description'' = pyget pv ''name''" and "reason \<noteq> CHANGE"
  shows "getText (dropDuplicateDescription reason pv) ''description'' = []"
proof (cases "truthy (pyget pv ''description'')")
  case True
  with assms show ?thesis by (simp add: dropDuplicateDescription_def getText_def)
next
  case False
  then have "getText pv ''description'' = []"
    by (auto simp: pyget_def getText_def split: option.splits pyval.splits)
  with False show ?thesis by (simp add: dropDuplicateDescription_def)
qed

text \<open>
  Claim C8. When the description fetched for an object property report equals the name:
  for every reason other than the content-change reason no description is spoken (for
  the only-cache reason nothing is spoken at all); for the content-change reason the
  test leaves the fetched values as they are, so the description is kept, and it is
  spoken whenever it is a string that differs from the cached description.
\<close>

theorem C8:
  assumes "pyget fetched ''description'' = pyget fetched ''name''"
  shows "(reason \<noteq> CHANGE \<longrightarrow>
           (case snd (getObjectPropertiesSpeech_values reason allowed pos fetched cached) of
              Inl e \<Rightarrow> False
            | Inr None \<Rightarrow> reason = ONLYCACHE
            | Inr (Some pv) \<Rightarrow> descriptionSpeech pv = []))
       \<and> (reason = CHANGE \<longrightarrow>
           dropDuplicateDescription reason fetched = fetched
           \<and> (fetched ''description'' = Some (PStr d) \<and> d \<noteq> []
               \<and> cached ''description'' \<noteq> Some (PStr d) \<longrightarrow>
               (case snd (getObjectPropertiesSpeech_values reason allowed pos fetched cached) of
                  Inl e \<Rightarrow> e = TypeError
                | Inr None \<Rightarrow> False
                | Inr (Some pv) \<Rightarrow> descriptionSpeech pv = [Str d])))"
proof (intro conjI impI)
  assume r: "reason \<noteq> CHANGE"
  show "case snd (getObjectPropertiesSpeech_values reason allowed pos fetched cached) of
          Inl e \<Rightarrow> False
        | Inr None \<Rightarrow> reason = ONLYCACHE
        | Inr (Some pv) \<Rightarrow> descriptionSpeech pv = []"
    using r dropDuplicateDescription_silent [OF assms r]
    by (simp add: getObjectPropertiesSpeech_values_def Let_def descriptionSpeech_def
        addPositionInfo_description)
next
  assume "reason = CHANGE"
  then show "dropDuplicateDescription reason fetched = fetched"
    by (simp add: dropDuplicateDescription_def)
next
  assume r: "reason = CHANGE"
    and d: "fetched ''description'' = Some (PStr d) \<and> d \<noteq> []
            \<and> cached ''description'' \<noteq> Some (PStr d)"
  have kept: "addPositionInfo allowed pos (dropDuplicateDescription reason fetched) ''description''
      = Some (PStr d)"
    using r d by (simp add: addPositionInfo_description_key dropDuplicateDescription_def)
  show "case snd (getObjectPropertiesSpeech_values reason allowed pos fetched cached) of
          Inl e \<Rightarrow> e = TypeError
        | Inr None \<Rightarrow> False
        | Inr (Some pv) \<Rightarrow> descriptionSpeech pv = [Str d]"
    using r d kept
    by (auto simp: getObjectPropertiesSpeech_values_def Let_def descriptionSpeech_def
        changedValues_def getText_def bindE_def
        split: sum.splits option.splits pyval.splits prod.splits if_splits)
qed

lemma exampleProperties_equal:
  "pyget exampleProperties ''description'' = pyget exampleProperties ''name''"
  by (simp add: exampleProperties_def pyget_def)

text \<open>
  Claim C8 on an object named \<open>OK\<close> with the description \<open>OK\<close> and nothing cached:
  on focus the description is not spoken, on a content change it is.
\<close>

theorem C8_witness:
  "pyget exampleProperties ''description'' = pyget exampleProperties ''name''
   \<and> FOCUS \<noteq> CHANGE
   \<and> snd (getObjectPropertiesSpeech_values FOCUS (\<lambda>k. True) None exampleProperties Map.empty)
       = Inr (Some [''name'' \<mapsto> PStr (lit ''OK'')])
   \<and> descriptionSpeech [''name'' \<mapsto> PStr (lit ''OK'')] = []
   \<and> dropDuplicateDescription CHANGE exampleProperties = exampleProperties
   \<and> snd (getObjectPropertiesSpeech_values CHANGE (\<lambda>k. True) None exampleProperties Map.empty)
       = Inr (Some exampleProperties)
   \<and> descriptionSpeech exampleProperties = [Str (lit ''OK'')]"
proof -
  note eq = exampleProperties_equal
  have focus: "snd (getObjectPropertiesSpeech_values FOCUS (\<lambda>k. True) None exampleProperties
        Map.empty) = Inr (Some [''name'' \<mapsto> PStr (lit ''OK'')])"
    by (simp add: getObjectPropertiesSpeech_values_def Let_def addPositionInfo_def
        dropDuplicateDescription_def exampleProperties_def pyget_def lit_def fun_upd_twist)
  have change: "snd (getObjectPropertiesSpeech_values CHANGE (\<lambda>k. True) None exampleProperties
        Map.empty) = Inr (Some exampleProperties)"
    by (simp add: getObjectPropertiesSpeech_values_def Let_def addPositionInfo_def
        dropDuplicateDescription_def changedValues_def)
  have said: "descriptionSpeech exampleProperties = [Str (lit ''OK'')]"
    by (simp add: descriptionSpeech_def exampleProperties_def getText_def lit_def)
  have silent: "descriptionSpeech [''name'' \<mapsto> PStr (lit ''OK'')] = []"
    using C8 [OF eq, where reason = FOCUS and allowed = "\<lambda>k. True" and pos = None
        and cached = Map.empty] focus by simp
  have kept: "dropDuplicateDescription CHANGE exampleProperties = exampleProperties"
    using C8 [OF eq, where reason = CHANGE] by simp
  show ?thesis
    using eq focus change said silent kept by simp
qed

section \<open>Comparing control field stacks\<close>

lemma sameControlField_refl: "sameControlField f f"
  by (simp add: sameControlField_def)

lemma countCommonFields_all_same:
  "list_all2 sameControlField new old \<Longrightarrow> countCommonFields new old = length old"
  by (induction new old rule: list_all2_induct) simp_all

lemma countCommonFields_le: "countCommonFields new old \<le> length new"
  by (induction new old rule: countCommonFields.induct) simp_all

lemma removedFieldsSpeech_none:
  "length cache \<le> n \<Longrightarrow> removedFieldsSpeech cf reason cache n = Inr []"
  by (simp add: removedFieldsSpeech_def bindE_def)

text \<open>
  Claim C3. When the cached stack and the new stack have the same fields, entry by
  entry, under the comparison that tries the unique identifier first (in particular
  when a stack is compared with itself), the number of common fields is the length of
  the stack, the fields removed from the stack yield no speech, and the loop over the
  fields added to the stack yields no speech.
\<close>

theorem C3:
  assumes "list_all2 sameControlField new old"
  shows "countCommonFields new old = length new
       \<and> countCommonFields new old = length old
       \<and> removedFieldsSpeech cfRemoved reason old (countCommonFields new old) = Inr []
       \<and> addedFieldsLoop env cfAdded fc reason new [countCommonFields new old ..< length new]
           [] notBlank False = Inr ([], notBlank)
       \<and> countCommonFields new new = length new
       \<and> removedFieldsSpeech cfRemoved reason new (countCommonFields new new) = Inr []
       \<and> addedFieldsLoop env cfAdded fc reason new [countCommonFields new new ..< length new]
           [] notBlank False = Inr ([], notBlank)"
proof -
  have l: "length new = length old"
    using assms by (rule list_all2_lengthD)
  have c: "countCommonFields new old = length old"
    using assms by (rule countCommonFields_all_same)
  have "list_all2 sameControlField new new"
    by (simp add: list_all2_same sameControlField_refl)
  then have s: "countCommonFields new new = length new"
    by (rule countCommonFields_all_same)
  show ?thesis
    by (simp add: c s l removedFieldsSpeech_none)
qed

section \<open>The speech for removed fields does not reach a focus report\<close>

lemma withRemoved_fields [simp]:
  "getTextWithFields (withRemovedFieldSpeech x env) = getTextWithFields env"
  "formatFieldPhrases (withRemovedFieldSpeech x env) = formatFieldPhrases env"
  "getPresentationCategory (withRemovedFieldSpeech x env) = getPresentationCategory env"
  "mathSpeechProvider (withRemovedFieldSpeech x env) = mathSpeechProvider env"
  "getSpeechForMathMl (withRemovedFieldSpeech x env) = getSpeechForMathMl env"
  "Role_MATH (withRemovedFieldSpeech x env) = Role_MATH env"
  "State_CLICKABLE (withRemovedFieldSpeech x env) = State_CLICKABLE env"
  "CLICKABLE_displayString (withRemovedFieldSpeech x env) = CLICKABLE_displayString env"
  "TextPosition_UNDEFINED (withRemovedFieldSpeech x env) = TextPosition_UNDEFINED env"
  "conf_documentFormatting (withRemovedFieldSpeech x env) = conf_documentFormatting env"
  "conf_delayedCharacterDescriptions (withRemovedFieldSpeech x env)
     = conf_delayedCharacterDescriptions env"
  "speechMode (withRemovedFieldSpeech x env) = speechMode env"
  "spelling (withRemovedFieldSpeech x env) = spelling env"
  by (simp_all add: withRemovedFieldSpeech_def)

lemma withRemoved_other_type:
  "fieldType \<noteq> ''end_removedFromControlFieldStack'' \<Longrightarrow>
   getControlFieldSpeech (withRemovedFieldSpeech x env) f anc fieldType fc ed r
     = getControlFieldSpeech env f anc fieldType fc ed r"
  by (simp add: withRemovedFieldSpeech_def)

lemma withRemoved_other_type_fun:
  "fieldType \<noteq> ''end_removedFromControlFieldStack'' \<Longrightarrow>
   (\<lambda>f anc. getControlFieldSpeech (withRemovedFieldSpeech x env) f anc fieldType fc ed r)
     = (\<lambda>f anc. getControlFieldSpeech env f anc fieldType fc ed r)"
  by (simp add: withRemoved_other_type)

lemma withRemoved_addMath:
  "addMathForTextInfo (withRemovedFieldSpeech x env) = addMathForTextInfo env"
  by (simp add: addMathForTextInfo_def fun_eq_iff)

lemma withRemoved_commonFieldsLoop:
  "commonFieldsLoop (withRemovedFieldSpeech x env) cf stack is acc nb
     = commonFieldsLoop env cf stack is acc nb"
  by (induction "is" arbitrary: acc nb) (simp_all add: withRemoved_addMath)

lemma withRemoved_hasClickableState:
  "hasClickableState (withRemovedFieldSpeech x env) = hasClickableState env"
  by (simp add: hasClickableState_def fun_eq_iff cong: pyval.case_cong)

lemma withRemoved_addedFieldsLoop:
  "addedFieldsLoop (withRemovedFieldSpeech x env) cf fc reason stack is acc nb ic
     = addedFieldsLoop env cf fc reason stack is acc nb ic"
  by (induction "is" arbitrary: acc nb ic)
     (simp_all add: withRemoved_addMath withRemoved_hasClickableState Let_def)

lemma withRemoved_getFormatFieldSpeech:
  "getFormatFieldSpeech (withRemovedFieldSpeech x env) = getFormatFieldSpeech env"
  by (simp add: getFormatFieldSpeech_def fun_eq_iff Let_def
      cong: sum.case_cong option.case_cong if_cong)

lemma withRemoved_relativeStep:
  "relativeStep (withRemovedFieldSpeech x env) cx item rs w = relativeStep env cx item rs w"
  by (simp add: relativeStep_def relativeControlStart_def relativeControlEnd_def
      relativeFormatChange_def relativeAfterField_def withRemoved_other_type
      withRemoved_addMath withRemoved_hasClickableState withRemoved_getFormatFieldSpeech
      Let_def
      cong: textItem.case_cong option.case_cong if_cong sum.case_cong textField.case_cong)

lemma withRemoved_relativeLoop:
  "relativeLoop (withRemovedFieldSpeech x env) cx items rs w = relativeLoop env cx items rs w"
  by (induction items arbitrary: rs w) (simp_all add: withRemoved_relativeStep)

lemma withRemoved_considerSpelling:
  "getTextInfoSpeech_considerSpelling (withRemovedFieldSpeech x env)
     = getTextInfoSpeech_considerSpelling env"
  by (simp add: getTextInfoSpeech_considerSpelling_def fun_eq_iff Let_def
      cong: list.case_cong textItem.case_cong if_cong)

lemma withRemoved_closing:
  "getTextInfoSpeech_closing (withRemovedFieldSpeech x env) cx uc st sb items sq lang nb w rs
     = getTextInfoSpeech_closing env cx uc st sb items sq lang nb w rs"
  by (simp add: getTextInfoSpeech_closing_def closingFieldsSpeech_def withRemoved_other_type
      Let_def cong: sum.case_cong if_cong)

lemma withRemoved_relative:
  "getTextInfoSpeech_relative (withRemovedFieldSpeech x env) cx uc st sb items sq lang nb rs w
     = getTextInfoSpeech_relative env cx uc st sb items sq lang nb rs w"
proof -
  have "getTextInfoSpeech_closing (withRemovedFieldSpeech x env) cx uc st sb items sq lang nb
      = getTextInfoSpeech_closing env cx uc st sb items sq lang nb"
    by (simp add: fun_eq_iff withRemoved_closing)
  then show ?thesis
    by (simp add: getTextInfoSpeech_relative_def withRemoved_relativeLoop)
qed

lemma withRemoved_spelling:
  "getTextInfoSpeech_spelling (withRemovedFieldSpeech x env) cx uc st oif items stack sq lang w
     = getTextInfoSpeech_spelling env cx uc st oif items stack sq lang w"
  by (simp add: getTextInfoSpeech_spelling_def spellingYield_def withRemoved_considerSpelling)

lemma withRemoved_spellsFirstText:
  "spellsFirstText (withRemovedFieldSpeech x env) = spellsFirstText env"
  by (simp add: spellsFirstText_def fun_eq_iff)

lemma withRemoved_afterFormat:
  "getTextInfoSpeech_afterFormat (withRemovedFieldSpeech x env) cx uc st oif sb items stack nff
     common sq nb w fs
   = getTextInfoSpeech_afterFormat env cx uc st oif sb items stack nff common sq nb w fs"
  by (simp add: getTextInfoSpeech_afterFormat_def withRemoved_spelling
      withRemoved_spellsFirstText withRemoved_relative Let_def)

lemma withRemoved_text:
  "getTextInfoSpeech_text (withRemovedFieldSpeech x env) cx uc st oif sb items stack nff common
     sq nb w
   = getTextInfoSpeech_text env cx uc st oif sb items stack nff common sq nb w"
proof -
  have "getTextInfoSpeech_afterFormat (withRemovedFieldSpeech x env) cx uc st oif sb items stack
          nff common sq nb
      = getTextInfoSpeech_afterFormat env cx uc st oif sb items stack nff common sq nb"
    by (simp add: fun_eq_iff withRemoved_afterFormat)
  then show ?thesis
    by (simp add: getTextInfoSpeech_text_def withRemoved_getFormatFieldSpeech)
qed

lemma withRemoved_configForCall:
  "configForCall (withRemovedFieldSpeech x env) = configForCall env"
  by (simp add: configForCall_def fun_eq_iff Let_def cong: option.case_cong)

lemma removedFieldsSpeech_focus:
  "reason \<in> {FOCUS, QUICKNAV} \<Longrightarrow> removedFieldsSpeech cf reason cache n = Inr []"
  by (auto simp: removedFieldsSpeech_def)

lemma withRemoved_initial:
  "reason \<in> {FOCUS, QUICKNAV} \<Longrightarrow>
   getTextInfoSpeech_initial (withRemovedFieldSpeech x env) fc ed reason pre flds cache
     = getTextInfoSpeech_initial env fc ed reason pre flds cache"
  by (simp add: getTextInfoSpeech_initial_def removedFieldsSpeech_focus withRemoved_other_type
      withRemoved_commonFieldsLoop withRemoved_addedFieldsLoop Let_def
      cong: if_cong)

text \<open>
  Claim C2. When the reason is a focus-type reason (focus or quick navigation), the
  fields removed from the cached stack yield no speech, whatever the stacks are; and
  the whole result of \<open>getTextInfoSpeech\<close> (the sequences, the returned value and
  the cache) is the same whatever \<open>info.getControlFieldSpeech\<close> would say for a
  removed field: no exit fragment for a removed field is in the produced sequences.
\<close>

theorem C2:
  assumes "reason \<in> {FOCUS, QUICKNAV}"
  shows "removedFieldsSpeech cf reason cache (countCommonFields new cache) = Inr []
       \<and> getTextInfoSpeech (withRemovedFieldSpeech x env) useCache formatConfig unit' reason
           prefixSpeechCommand onlyInitialFields suppressBlanks w
         = getTextInfoSpeech env useCache formatConfig unit' reason
             prefixSpeechCommand onlyInitialFields suppressBlanks w"
proof -
  have a: "removedFieldsSpeech cf reason cache (countCommonFields new cache) = Inr []"
    using assms by (rule removedFieldsSpeech_focus)
  have b: "getTextInfoSpeech (withRemovedFieldSpeech x env) useCache formatConfig unit' reason
           prefixSpeechCommand onlyInitialFields suppressBlanks w
         = getTextInfoSpeech env useCache formatConfig unit' reason
             prefixSpeechCommand onlyInitialFields suppressBlanks w"
    unfolding getTextInfoSpeech_def
    by (simp add: withRemoved_initial [OF assms] withRemoved_text withRemoved_configForCall
        Let_def cong: if_cong sum.case_cong option.case_cong prod.case_cong)
  from a b show ?thesis by simp
qed

section \<open>What a call that raises leaves in the cache\<close>

lemma getFormatFieldSpeech_obj:
  "obj_speakTextInfoState (fst (getFormatFieldSpeech env attrs ref fc r u ed i w))
     = obj_speakTextInfoState w"
  by (simp add: getFormatFieldSpeech_def Let_def split: sum.splits)

lemma bindW_obj:
  assumes "obj_speakTextInfoState (fst m) = ob"
    and "\<And>v. snd m = Inr v \<Longrightarrow> obj_speakTextInfoState (fst (f (fst m) v)) = ob"
  shows "obj_speakTextInfoState (fst (bindW m f)) = ob"
  using assms by (cases "snd m") (simp_all add: bindW_def)

lemma bindW_obj_fail:
  assumes "obj_speakTextInfoState (fst m) = ob"
    and "\<And>v. snd m = Inr v \<Longrightarrow> isl (snd (f (fst m) v)) \<Longrightarrow>
           obj_speakTextInfoState (fst (f (fst m) v)) = ob"
    and "isl (snd (bindW m f))"
  shows "obj_speakTextInfoState (fst (bindW m f)) = ob"
  using assms by (cases "snd m") (simp_all add: bindW_def)

lemma relativeFormatChange_obj:
  "obj_speakTextInfoState (fst (relativeFormatChange env cx f rs w)) = obj_speakTextInfoState w"
proof (cases f)
  case None
  then show ?thesis by (simp add: relativeFormatChange_def)
next
  case (Some fld)
  show ?thesis
    unfolding relativeFormatChange_def Some option.case
    by (rule bindW_obj) (simp_all add: getFormatFieldSpeech_obj Let_def)
qed

lemma relativeStep_obj:
  "obj_speakTextInfoState (fst (relativeStep env cx item rs w)) = obj_speakTextInfoState w"
proof (cases item)
  case (Text t)
  then show ?thesis by (simp add: relativeStep_def)
next
  case (FieldCommand c f)
  show ?thesis
    unfolding relativeStep_def FieldCommand textItem.case
    by (rule bindW_obj) (simp_all add: relativeFormatChange_obj split: prod.splits)
qed

lemma relativeLoop_obj:
  "obj_speakTextInfoState (fst (relativeLoop env cx items rs w)) = obj_speakTextInfoState w"
proof (induction items arbitrary: rs w)
  case Nil
  show ?case by simp
next
  case (Cons item items)
  show ?case
    by (simp, rule bindW_obj) (simp_all add: relativeStep_obj Cons.IH)
qed

lemma closing_obj_fail:
  assumes "isl (snd (getTextInfoSpeech_closing env cx uc st sb items sq lang nb w rs))"
  shows "obj_speakTextInfoState
           (fst (getTextInfoSpeech_closing env cx uc st sb items sq lang nb w rs))
         = obj_speakTextInfoState w"
proof (cases "closingFieldsSpeech env cx rs")
  case (Inl e)
  then show ?thesis by (simp add: getTextInfoSpeech_closing_def Let_def)
next
  case (Inr closing)
  with assms show ?thesis by (simp add: getTextInfoSpeech_closing_def Let_def)
qed

lemma relative_obj_fail:
  assumes "isl (snd (getTextInfoSpeech_relative env cx uc st sb items sq lang nb rs w))"
  shows "obj_speakTextInfoState
           (fst (getTextInfoSpeech_relative env cx uc st sb items sq lang nb rs w))
         = obj_speakTextInfoState w"
  using assms unfolding getTextInfoSpeech_relative_def
  by (rule bindW_obj_fail [rotated 2]) (simp_all add: relativeLoop_obj closing_obj_fail)

lemma spelling_obj_fail:
  assumes "isl (snd (getTextInfoSpeech_spelling env cx uc st oif items stack sq lang w))"
  shows "obj_speakTextInfoState
           (fst (getTextInfoSpeech_spelling env cx uc st oif items stack sq lang w))
         = obj_speakTextInfoState w"
proof (cases "spellingYield env cx oif items sq lang")
  case (Inl e)
  then show ?thesis by (simp add: getTextInfoSpeech_spelling_def)
next
  case (Inr yielded)
  with assms show ?thesis by (simp add: getTextInfoSpeech_spelling_def)
qed

lemma afterFormat_obj_fail:
  assumes "isl (snd (getTextInfoSpeech_afterFormat env cx uc st oif sb items stack nff common sq
                       nb w fs))"
  shows "obj_speakTextInfoState
           (fst (getTextInfoSpeech_afterFormat env cx uc st oif sb items stack nff common sq
                   nb w fs))
         = obj_speakTextInfoState w"
proof (cases "spellsFirstText env cx oif items")
  case True
  with assms show ?thesis
    by (simp add: getTextInfoSpeech_afterFormat_def Let_def spelling_obj_fail)
next
  case False
  with assms show ?thesis
    by (simp add: getTextInfoSpeech_afterFormat_def Let_def relative_obj_fail)
qed

lemma text_obj_fail:
  assumes "isl (snd (getTextInfoSpeech_text env cx uc st oif sb items stack nff common sq nb w))"
  shows "obj_speakTextInfoState
           (fst (getTextInfoSpeech_text env cx uc st oif sb items stack nff common sq nb w))
         = obj_speakTextInfoState w"
  using assms unfolding getTextInfoSpeech_text_def
  by (rule bindW_obj_fail [rotated 2])
     (simp_all add: getFormatFieldSpeech_obj afterFormat_obj_fail)

lemma stateForCall_obj:
  "obj_speakTextInfoState (snd (stateForCall uc w)) = obj_speakTextInfoState w"
  by (cases uc)
     (simp_all add: stateForCall_def newStateFromObj_def newDict_def Let_def
        split: option.splits)

lemma attributesForCall_obj:
  "obj_speakTextInfoState (snd (attributesForCall st w)) = obj_speakTextInfoState w"
  by (cases st) (simp_all add: attributesForCall_def newDict_def)

lemma getTextInfoSpeech_obj_fail:
  assumes "isl (snd (getTextInfoSpeech env uc fcfg u reason pre oif sb w))"
  shows "obj_speakTextInfoState (fst (getTextInfoSpeech env uc fcfg u reason pre oif sb w))
         = obj_speakTextInfoState w"
proof -
  obtain st w1 where s1: "stateForCall uc w = (st, w1)"
    by (cases "stateForCall uc w") simp
  obtain ref w2 where s2: "attributesForCall st w1 = (ref, w2)"
    by (cases "attributesForCall st w1") simp
  have o2: "obj_speakTextInfoState w2 = obj_speakTextInfoState w"
    using stateForCall_obj [of uc w] attributesForCall_obj [of st w1] s1 s2 by simp
  show ?thesis
    using assms o2
    by (simp add: getTextInfoSpeech_def s1 s2 Let_def text_obj_fail
        split: sum.split_asm sum.split prod.split_asm prod.split)
qed

section \<open>The example text info\<close>

lemma bindE_simps:
  "bindE (Inr v) f = f v" "bindE (Inl e) f = Inl e"
  by (simp_all add: bindE_def)

lemma bindW_simps:
  "bindW (w, Inr v) g = g w v" "bindW (w, Inl e) g = (w, Inl e)"
  by (simp_all add: bindW_def)

lemma exampleEnv_fields:
  "getTextWithFields (exampleTextInfoEnv fetched) fc = fetched"
  "getControlFieldSpeech (exampleTextInfoEnv fetched) = exampleControlFieldSpeech"
  "formatFieldPhrases (exampleTextInfoEnv fetched) attrs attrsCache fc r u ed i = Inr []"
  "mathSpeechProvider (exampleTextInfoEnv fetched) = False"
  "Role_MATH (exampleTextInfoEnv fetched) = PInt 101"
  "conf_documentFormatting (exampleTextInfoEnv fetched) = exampleFormatConfig"
  "conf_delayedCharacterDescriptions (exampleTextInfoEnv fetched) = False"
  "speechMode (exampleTextInfoEnv fetched) = talk"
  "spelling (exampleTextInfoEnv fetched) = exampleSpellEnv"
  by (simp_all add: exampleTextInfoEnv_def)

lemma exampleFormatConfig_fields:
  "reportLineIndentation exampleFormatConfig = OFF"
  "reportClickable exampleFormatConfig = False"
  "reportSuperscriptsAndSubscripts exampleFormatConfig = False"
  "ignoreBlankLinesForRLI exampleFormatConfig = False"
  by (simp_all add: exampleFormatConfig_def)

lemma exampleSpellEnv_fields:
  "shouldMakeLangChangeCommand exampleSpellEnv = False"
  "unicodeNormalize exampleSpellEnv s = s"
  by (simp_all add: exampleSpellEnv_def)

lemma exampleDict_reads:
  "exampleList ''broken'' = None" "exampleItem ''broken'' = None"
  "pyget exampleList ''role'' = PNone" "pyget exampleItem ''role'' = PNone"
  "getText exampleList ''name'' = lit ''list''" "getText exampleItem ''name'' = lit ''item''"
  "exampleList \<noteq> Map.empty" "exampleBold \<noteq> Map.empty"
  "exampleList(''_startOfNode'' := None, ''_endOfNode'' := None) = exampleList"
  "exampleBold(''_startOfNode'' := None, ''_endOfNode'' := None) = exampleBold"
  "sameControlField exampleList exampleList"
  by (simp_all add: exampleList_def exampleItem_def exampleBold_def pyget_def getText_def
      sameControlField_def)

lemma brokenField_reads:
  "[''broken'' \<mapsto> PInt 1] \<noteq> Map.empty"
  "[''broken'' \<mapsto> PInt 1](''_startOfNode'' := None, ''_endOfNode'' := None)
     = [''broken'' \<mapsto> PInt 1]"
  by simp_all

lemma exampleFetched_parts:
  "map commandField (takeWhile isInitialFieldCommand (map removeNodeBounds exampleFetched))
     = [Some (ControlField exampleList), Some (FormatField exampleBold)]"
  "rev (dropWhile isControlEndFieldCommand
          (rev (dropWhile isInitialFieldCommand (map removeNodeBounds exampleFetched))))
     = [Text (lit ''x'')]"
  by (simp_all add: exampleFetched_def removeNodeBounds_def exampleDict_reads)

lemma exampleFetchedBroken_parts:
  "map commandField (takeWhile isInitialFieldCommand (map removeNodeBounds exampleFetchedBroken))
     = [Some (ControlField exampleList), Some (FormatField exampleBold)]"
  "rev (dropWhile isControlEndFieldCommand
          (rev (dropWhile isInitialFieldCommand (map removeNodeBounds exampleFetchedBroken))))
     = [Text (lit ''x''),
        FieldCommand ''controlStart'' (Some (ControlField [''broken'' \<mapsto> PInt 1])),
        Text (lit ''y'')]"
  by (simp_all add: exampleFetchedBroken_def removeNodeBounds_def exampleDict_reads
      brokenField_reads)

lemma example_stateForCall:
  "stateForCall UseCacheTrue exampleWorld
     = (Some \<lparr>controlFieldStackCache = [exampleList, exampleItem],
              formatFieldAttributesCache = 0, indentationCache = []\<rparr>, exampleWorld)"
  by (simp add: stateForCall_def newStateFromObj_def exampleWorld_def)

lemma example_configForCall:
  "configForCall (exampleTextInfoEnv fetched) None (Some UNIT_LINE) r = exampleFormatConfig"
  by (simp add: configForCall_def exampleEnv_fields)

lemma example_initial_caret:
  "getTextInfoSpeech_initial (exampleTextInfoEnv fetched) exampleFormatConfig False CARET None
     [Some (ControlField exampleList), Some (FormatField exampleBold)]
     [exampleList, exampleItem]
   = Inr ([exampleList], exampleBold, Suc 0,
          [Str (lit ''item end_removedFromControlFieldStack'')], False)"
  by (simp add: getTextInfoSpeech_initial_def Let_def bindE_simps exampleDict_reads
      removedFieldsSpeech_def exampleEnv_fields exampleControlFieldSpeech_def lit_def)

lemma example_initial_focus:
  "getTextInfoSpeech_initial (exampleTextInfoEnv fetched) exampleFormatConfig False FOCUS None
     [Some (ControlField exampleList), Some (FormatField exampleBold)]
     [exampleList, exampleItem]
   = Inr ([exampleList], exampleBold, Suc 0, [], False)"
  by (simp add: getTextInfoSpeech_initial_def Let_def bindE_simps exampleDict_reads
      removedFieldsSpeech_def exampleEnv_fields exampleControlFieldSpeech_def lit_def)

lemma example_format:
  "getFormatFieldSpeech (exampleTextInfoEnv fetched) attrs 0 exampleFormatConfig r u ed i w
     = (w\<lparr>heap := (heap w)(0 := attrs)\<rparr>, Inr [])"
  by (simp add: getFormatFieldSpeech_def exampleEnv_fields exampleFormatConfig_fields)

lemma example_text_broken:
  "getTextInfoSpeech_text (exampleTextInfoEnv fetched)
     \<lparr>cx_formatConfig = exampleFormatConfig, cx_reason = CARET, cx_unit = Some UNIT_LINE,
      cx_extraDetail = False, cx_reportIndentation = False, cx_cacheRef = 0\<rparr>
     UseCacheTrue st False False
     [Text (lit ''x''),
      FieldCommand ''controlStart'' (Some (ControlField [''broken'' \<mapsto> PInt 1])),
      Text (lit ''y'')]
     [exampleList] exampleBold (Suc 0) sq False w
   = (w\<lparr>heap := (heap w)(0 := exampleBold)\<rparr>, Inl AttributeError)"
  by (simp add: getTextInfoSpeech_text_def example_format bindW_simps bindE_simps
      getTextInfoSpeech_afterFormat_def Let_def spellsFirstText_def
      getTextInfoSpeech_relative_def relativeStep_def relativeText_def
      relativeControlStart_def exampleEnv_fields exampleFormatConfig_fields
      exampleSpellEnv_fields exampleControlFieldSpeech_def lit_def)

lemma example_text:
  "getTextInfoSpeech_text (exampleTextInfoEnv fetched)
     \<lparr>cx_formatConfig = exampleFormatConfig, cx_reason = r, cx_unit = Some UNIT_LINE,
      cx_extraDetail = False, cx_reportIndentation = False, cx_cacheRef = 0\<rparr>
     UseCacheTrue (Some st) False False [Text (lit ''x'')] [exampleList] exampleBold (Suc 0) sq False w
   = (w\<lparr>heap := (heap w)(0 := exampleBold),
         obj_speakTextInfoState :=
           Some (st\<lparr>controlFieldStackCache := [exampleList],
                     formatFieldAttributesCache := 0\<rparr>)\<rparr>,
      Inr (if r = ONLYCACHE then ([], False) else ([sq @ [Str (lit ''x'')]], True)))"
  by (simp add: getTextInfoSpeech_text_def example_format bindW_simps bindE_simps
      getTextInfoSpeech_afterFormat_def Let_def spellsFirstText_def
      getTextInfoSpeech_relative_def relativeStep_def relativeText_def
      getTextInfoSpeech_closing_def closingFieldsSpeech_def
      getTextInfoSpeech_updateCache_def updateObj_def isBlank_def BLANK_CHUNK_CHARS_def
      exampleEnv_fields exampleFormatConfig_fields exampleDict_reads
      exampleSpellEnv_fields exampleControlFieldSpeech_def lit_def)

lemma example_broken_call:
  "getTextInfoSpeech (exampleTextInfoEnv exampleFetchedBroken) UseCacheTrue None
     (Some UNIT_LINE) CARET None False False exampleWorld
   = (exampleWorld\<lparr>heap := (heap exampleWorld)(0 := exampleBold)\<rparr>, Inl AttributeError)"
  by (simp add: getTextInfoSpeech_def Let_def example_stateForCall example_configForCall
      attributesForCall_def exampleEnv_fields exampleFetchedBroken_parts
      example_initial_caret exampleFormatConfig_fields example_text_broken)

lemma example_caret_call:
  "getTextInfoSpeech (exampleTextInfoEnv exampleFetched) UseCacheTrue None
     (Some UNIT_LINE) CARET None False False exampleWorld
   = (exampleWorld\<lparr>heap := (heap exampleWorld)(0 := exampleBold),
         obj_speakTextInfoState :=
           Some \<lparr>controlFieldStackCache = [exampleList], formatFieldAttributesCache = 0,
                 indentationCache = []\<rparr>\<rparr>,
      Inr ([[Str (lit ''item end_removedFromControlFieldStack''), Str (lit ''x'')]], True))"
  by (simp add: getTextInfoSpeech_def Let_def example_stateForCall example_configForCall
      attributesForCall_def exampleEnv_fields exampleFetched_parts
      example_initial_caret exampleFormatConfig_fields example_text)

lemma example_focus_call:
  "getTextInfoSpeech (exampleTextInfoEnv exampleFetched) UseCacheTrue None
     (Some UNIT_LINE) FOCUS None False False exampleWorld
   = (exampleWorld\<lparr>heap := (heap exampleWorld)(0 := exampleBold),
         obj_speakTextInfoState :=
           Some \<lparr>controlFieldStackCache = [exampleList], formatFieldAttributesCache = 0,
                 indentationCache = []\<rparr>\<rparr>,
      Inr ([[Str (lit ''x'')]], True))"
  by (simp add: getTextInfoSpeech_def Let_def example_stateForCall example_configForCall
      attributesForCall_def exampleEnv_fields exampleFetched_parts
      example_initial_focus exampleFormatConfig_fields example_text)

section \<open>What a call that returns leaves in the cache\<close>

lemma bindW_ref:
  assumes "\<not> isl (snd (bindW m f))"
    and "\<And>v. snd m = Inr v \<Longrightarrow> \<not> isl (snd (f (fst m) v)) \<Longrightarrow>
           map_option formatFieldAttributesCache (obj_speakTextInfoState (fst (f (fst m) v)))
             = Some ref"
  shows "map_option formatFieldAttributesCache (obj_speakTextInfoState (fst (bindW m f)))
           = Some ref"
  using assms by (cases "snd m") (simp_all add: bindW_def)

lemma updateCache_ref:
  "map_option formatFieldAttributesCache
     (obj_speakTextInfoState (getTextInfoSpeech_updateCache UseCacheTrue s stack ref w))
   = Some ref"
  by (simp add: getTextInfoSpeech_updateCache_def updateObj_def)

lemma closing_ref:
  assumes "\<not> isl (snd (getTextInfoSpeech_closing env cx UseCacheTrue st sb items sq lang nb w rs))"
  shows "map_option formatFieldAttributesCache
           (obj_speakTextInfoState
              (fst (getTextInfoSpeech_closing env cx UseCacheTrue st sb items sq lang nb w rs)))
         = Some (cx_cacheRef cx)"
proof (cases "closingFieldsSpeech env cx rs")
  case (Inl e)
  with assms show ?thesis by (simp add: getTextInfoSpeech_closing_def Let_def)
next
  case (Inr closing)
  then show ?thesis by (simp add: getTextInfoSpeech_closing_def Let_def updateCache_ref)
qed

lemma relative_ref:
  assumes "\<not> isl (snd (getTextInfoSpeech_relative env cx UseCacheTrue st sb items sq lang nb
                          rs w))"
  shows "map_option formatFieldAttributesCache
           (obj_speakTextInfoState
              (fst (getTextInfoSpeech_relative env cx UseCacheTrue st sb items sq lang nb rs w)))
         = Some (cx_cacheRef cx)"
  using assms unfolding getTextInfoSpeech_relative_def
  by (rule bindW_ref) (simp add: closing_ref)

lemma spelling_ref:
  assumes "\<not> isl (snd (getTextInfoSpeech_spelling env cx UseCacheTrue st oif items stack sq
                          lang w))"
  shows "map_option formatFieldAttributesCache
           (obj_speakTextInfoState
              (fst (getTextInfoSpeech_spelling env cx UseCacheTrue st oif items stack sq lang w)))
         = Some (cx_cacheRef cx)"
proof (cases "spellingYield env cx oif items sq lang")
  case (Inl e)
  with assms show ?thesis by (simp add: getTextInfoSpeech_spelling_def)
next
  case (Inr yielded)
  then show ?thesis by (simp add: getTextInfoSpeech_spelling_def updateCache_ref)
qed

lemma afterFormat_ref:
  assumes "\<not> isl (snd (getTextInfoSpeech_afterFormat env cx UseCacheTrue st oif sb items stack
                          nff common sq nb w fs))"
  shows "map_option formatFieldAttributesCache
           (obj_speakTextInfoState
              (fst (getTextInfoSpeech_afterFormat env cx UseCacheTrue st oif sb items stack
                      nff common sq nb w fs)))
         = Some (cx_cacheRef cx)"
proof (cases "spellsFirstText env cx oif items")
  case True
  with assms show ?thesis
    by (simp add: getTextInfoSpeech_afterFormat_def Let_def spelling_ref)
next
  case False
  with assms show ?thesis
    by (simp add: getTextInfoSpeech_afterFormat_def Let_def relative_ref)
qed

lemma text_ref:
  assumes "\<not> isl (snd (getTextInfoSpeech_text env cx UseCacheTrue st oif sb items stack nff
                          common sq nb w))"
  shows "map_option formatFieldAttributesCache
           (obj_speakTextInfoState
              (fst (getTextInfoSpeech_text env cx UseCacheTrue st oif sb items stack nff
                      common sq nb w)))
         = Some (cx_cacheRef cx)"
  using assms unfolding getTextInfoSpeech_text_def
  by (rule bindW_ref) (simp add: afterFormat_ref)

lemma stateForCall_ref:
  "\<exists>s w1. stateForCall UseCacheTrue w = (Some s, w1)
     \<and> formatFieldAttributesCache s
         = (case obj_speakTextInfoState w of
              None \<Rightarrow> nextRef w
            | Some old \<Rightarrow> formatFieldAttributesCache old)"
  by (simp add: stateForCall_def newStateFromObj_def newDict_def Let_def split: option.splits)

lemma getTextInfoSpeech_ref:
  assumes "\<not> isl (snd (getTextInfoSpeech env UseCacheTrue fcfg u reason pre oif sb w))"
  shows "map_option formatFieldAttributesCache
           (obj_speakTextInfoState
              (fst (getTextInfoSpeech env UseCacheTrue fcfg u reason pre oif sb w)))
         = Some (case obj_speakTextInfoState w of
                   None \<Rightarrow> nextRef w
                 | Some old \<Rightarrow> formatFieldAttributesCache old)"
proof -
  obtain s w1 where s1: "stateForCall UseCacheTrue w = (Some s, w1)"
    and r: "formatFieldAttributesCache s
              = (case obj_speakTextInfoState w of
                   None \<Rightarrow> nextRef w
                 | Some old \<Rightarrow> formatFieldAttributesCache old)"
    using stateForCall_ref [of w] by blast
  have s2: "attributesForCall (Some s) w1 = (formatFieldAttributesCache s, w1)"
    by (simp add: attributesForCall_def)
  show ?thesis
    using assms
    by (simp add: getTextInfoSpeech_def s1 s2 Let_def text_ref r [symmetric]
        del: map_option_eq_Some
        split: sum.split_asm sum.split prod.split_asm prod.split)
qed

lemma getFormatFieldSpeech_heap:
  assumes "\<not> isl (snd (getFormatFieldSpeech env attrs ref fc reason u ed i w))"
    and "\<not> reportSuperscriptsAndSubscripts fc"
  shows "heap (fst (getFormatFieldSpeech env attrs ref fc reason u ed i w)) ref = attrs"
  using assms by (simp add: getFormatFieldSpeech_def Let_def split: sum.splits)

section \<open>The cache of a subject and a call that raises\<close>

text \<open>
  Claim C7, amended. A call of \<open>getTextInfoSpeech\<close> that raises leaves the state of
  the object (the cached stack, the reference to the dictionary of cached attributes,
  the cached indentation) as it was before the call. A call that uses the cache of the
  object and returns leaves the object with a state whose dictionary of cached
  attributes is the dictionary that the call found (that of the state the object had,
  or else a new one). The content of that dictionary is not kept to the end of the
  call: \<open>getFormatFieldSpeech\<close>, when it returns, has replaced the content of the
  dictionary it is given by the attributes of the field (when the text position is not
  reported, exactly these attributes), whatever happens later in the call.
\<close>

theorem C7_amended:
  "(isl (snd (getTextInfoSpeech env useCache formatConfig unit' reason prefixSpeechCommand
                onlyInitialFields suppressBlanks w))
      \<longrightarrow> obj_speakTextInfoState
            (fst (getTextInfoSpeech env useCache formatConfig unit' reason prefixSpeechCommand
                    onlyInitialFields suppressBlanks w))
          = obj_speakTextInfoState w)
   \<and> (\<not> isl (snd (getTextInfoSpeech env UseCacheTrue formatConfig unit' reason
                     prefixSpeechCommand onlyInitialFields suppressBlanks w))
      \<longrightarrow> map_option formatFieldAttributesCache
            (obj_speakTextInfoState
               (fst (getTextInfoSpeech env UseCacheTrue formatConfig unit' reason
                       prefixSpeechCommand onlyInitialFields suppressBlanks w)))
          = Some (case obj_speakTextInfoState w of
                    None \<Rightarrow> nextRef w
                  | Some old \<Rightarrow> formatFieldAttributesCache old))
   \<and> (\<not> isl (snd (getFormatFieldSpeech env attrs attrsCache fc reason unit' extraDetail
                     initialFormat w))
        \<and> \<not> reportSuperscriptsAndSubscripts fc
      \<longrightarrow> heap (fst (getFormatFieldSpeech env attrs attrsCache fc reason unit' extraDetail
                       initialFormat w)) attrsCache
          = attrs)"
  using getTextInfoSpeech_obj_fail [of env useCache formatConfig unit' reason
      prefixSpeechCommand onlyInitialFields suppressBlanks w]
    getTextInfoSpeech_ref [of env formatConfig unit' reason prefixSpeechCommand
      onlyInitialFields suppressBlanks w]
    getFormatFieldSpeech_heap [of env attrs attrsCache fc reason unit' extraDetail
      initialFormat w]
  by blast

theorem C7_amended_witness:
  "isl (snd (getTextInfoSpeech (exampleTextInfoEnv exampleFetchedBroken) UseCacheTrue None
               (Some UNIT_LINE) CARET None False False exampleWorld))
   \<and> obj_speakTextInfoState
       (fst (getTextInfoSpeech (exampleTextInfoEnv exampleFetchedBroken) UseCacheTrue None
               (Some UNIT_LINE) CARET None False False exampleWorld))
     = obj_speakTextInfoState exampleWorld
   \<and> \<not> isl (snd (getTextInfoSpeech (exampleTextInfoEnv exampleFetched) UseCacheTrue None
                   (Some UNIT_LINE) CARET None False False exampleWorld))
   \<and> map_option formatFieldAttributesCache
       (obj_speakTextInfoState
          (fst (getTextInfoSpeech (exampleTextInfoEnv exampleFetched) UseCacheTrue None
                  (Some UNIT_LINE) CARET None False False exampleWorld)))
     = Some 0
   \<and> \<not> isl (snd (getFormatFieldSpeech (exampleTextInfoEnv exampleFetched) exampleBold 0
                    exampleFormatConfig CARET (Some UNIT_LINE) False True exampleWorld))
   \<and> \<not> reportSuperscriptsAndSubscripts exampleFormatConfig
   \<and> heap (fst (getFormatFieldSpeech (exampleTextInfoEnv exampleFetched) exampleBold 0
                  exampleFormatConfig CARET (Some UNIT_LINE) False True exampleWorld)) 0
     = exampleBold"
proof -
  have a: "isl (snd (getTextInfoSpeech (exampleTextInfoEnv exampleFetchedBroken) UseCacheTrue
                       None (Some UNIT_LINE) CARET None False False exampleWorld))"
    by (simp add: example_broken_call)
  have b: "\<not> isl (snd (getTextInfoSpeech (exampleTextInfoEnv exampleFetched) UseCacheTrue None
                         (Some UNIT_LINE) CARET None False False exampleWorld))"
    by (simp add: example_caret_call)
  have c: "\<not> isl (snd (getFormatFieldSpeech (exampleTextInfoEnv exampleFetched) exampleBold 0
                         exampleFormatConfig CARET (Some UNIT_LINE) False True exampleWorld))"
    by (simp add: example_format)
  have d: "\<not> reportSuperscriptsAndSubscripts exampleFormatConfig"
    by (simp add: exampleFormatConfig_fields)
  have e: "(case obj_speakTextInfoState exampleWorld of
              None \<Rightarrow> nextRef exampleWorld
            | Some old \<Rightarrow> formatFieldAttributesCache old) = 0"
    by (simp add: exampleWorld_def)
  show ?thesis
    using a b c d
      C7_amended [where env = "exampleTextInfoEnv exampleFetchedBroken"
        and useCache = UseCacheTrue and formatConfig = None and unit' = "Some UNIT_LINE"
        and reason = CARET and prefixSpeechCommand = None and onlyInitialFields = False
        and suppressBlanks = False and w = exampleWorld and attrs = exampleBold
        and attrsCache = 0 and fc = exampleFormatConfig and extraDetail = False
        and initialFormat = True]
      C7_amended [where env = "exampleTextInfoEnv exampleFetched"
        and useCache = UseCacheTrue and formatConfig = None and unit' = "Some UNIT_LINE"
        and reason = CARET and prefixSpeechCommand = None and onlyInitialFields = False
        and suppressBlanks = False and w = exampleWorld and attrs = exampleBold
        and attrsCache = 0 and fc = exampleFormatConfig and extraDetail = False
        and initialFormat = True]
    unfolding e by blast
qed

text \<open>
  Claim C7 as stated fails. The cached state is the one of \<open>exampleWorld\<close>; the call
  describes a line whose second control field raises \<open>AttributeError\<close>. The call
  raises, and the cached format field attributes, which were empty, are those of the
  initial format field of the line.
\<close>

theorem C7_counterexample:
  "snd (getTextInfoSpeech (exampleTextInfoEnv exampleFetchedBroken) UseCacheTrue None
          (Some UNIT_LINE) CARET None False False exampleWorld)
     = Inl AttributeError
   \<and> cachedSnapshot
       (fst (getTextInfoSpeech (exampleTextInfoEnv exampleFetchedBroken) UseCacheTrue None
               (Some UNIT_LINE) CARET None False False exampleWorld))
     = Some ([exampleList, exampleItem], exampleBold, [])
   \<and> cachedSnapshot
       (fst (getTextInfoSpeech (exampleTextInfoEnv exampleFetchedBroken) UseCacheTrue None
               (Some UNIT_LINE) CARET None False False exampleWorld))
     \<noteq> cachedSnapshot exampleWorld"
  unfolding example_broken_call
  by (simp add: cachedSnapshot_def exampleWorld_def exampleDict_reads)

section \<open>The claims on the stacks at the example\<close>

text \<open>
  Claim C2 at the example: the cached stack holds the list and the item, the new stack
  the list only, and the reason is focus. Nothing is said for the item that left the
  stack (compare \<open>example_caret_call\<close>, where the reason is caret).
\<close>

theorem C2_witness:
  "FOCUS \<in> {FOCUS, QUICKNAV}
   \<and> removedFieldsSpeech exampleRemovedSpeech FOCUS [exampleList, exampleItem]
       (countCommonFields [exampleList] [exampleList, exampleItem]) = Inr []
   \<and> snd (getTextInfoSpeech
            (withRemovedFieldSpeech exampleExitSpeech (exampleTextInfoEnv exampleFetched))
            UseCacheTrue None (Some UNIT_LINE) FOCUS None False False exampleWorld)
     = Inr ([[Str (lit ''x'')]], True)"
proof -
  have h: "FOCUS \<in> {FOCUS, QUICKNAV}"
    by simp
  from C2 [OF h, where cf = exampleRemovedSpeech and cache = "[exampleList, exampleItem]"
      and new = "[exampleList]" and x = exampleExitSpeech
      and env = "exampleTextInfoEnv exampleFetched" and useCache = UseCacheTrue
      and formatConfig = None and unit' = "Some UNIT_LINE" and prefixSpeechCommand = None
      and onlyInitialFields = False and suppressBlanks = False and w = exampleWorld]
  show ?thesis
    unfolding example_focus_call by simp
qed

text \<open>
  Claim C3 on the stack of the list and the item, against itself and against the stack
  where the list has another name and the same unique identifier.
\<close>

theorem C3_witness:
  "list_all2 sameControlField [exampleList, exampleItem] [exampleListRenamed, exampleItem]
   \<and> countCommonFields [exampleList, exampleItem] [exampleListRenamed, exampleItem] = 2
   \<and> removedFieldsSpeech exampleRemovedSpeech CARET [exampleListRenamed, exampleItem]
       (countCommonFields [exampleList, exampleItem] [exampleListRenamed, exampleItem])
     = Inr []
   \<and> addedFieldsLoop (exampleTextInfoEnv exampleFetched) exampleRemovedSpeech
       exampleFormatConfig CARET [exampleList, exampleItem]
       [countCommonFields [exampleList, exampleItem] [exampleListRenamed, exampleItem]
          ..< length [exampleList, exampleItem]]
       [] False False
     = Inr ([], False)
   \<and> countCommonFields [exampleList, exampleItem] [exampleList, exampleItem] = 2"
proof -
  have h: "list_all2 sameControlField [exampleList, exampleItem]
             [exampleListRenamed, exampleItem]"
    by (simp add: sameControlField_def exampleList_def exampleListRenamed_def exampleItem_def
        pyget_def)
  from C3 [OF h, where cfRemoved = exampleRemovedSpeech and reason = CARET
      and env = "exampleTextInfoEnv exampleFetched" and cfAdded = exampleRemovedSpeech
      and fc = exampleFormatConfig and notBlank = False] h
  show ?thesis
    by simp
qed

end
